theory Spec2Isabelle
  imports Complex_Main
begin

section \<open>Tensors, errors and the tensor primitives used by \<open>gpt_tp.py\<close>\<close>

text \<open>
  Tensors are nested lists, as \<^verbatim>\<open>tensor.tolist()\<close> gives them: a hidden state
  \<^verbatim>\<open>[batch, sequence, feature]\<close> is a list of matrices, a matrix is the list of its
  rows. Element values are real numbers: arithmetic is exact, there is no rounding,
  overflow, infinity or NaN. A nested list cannot show the lengths of the axes below
  an empty axis, so the properties below are stated for tensors whose axes are
  non-empty wherever an axis length is read.

  Every exception of the Python code is a value of \<open>error\<close>; a function that can
  raise returns \<open>error + 'a\<close>. \<open>NonFinite\<close> marks the place where the code would go on
  with infinities or NaNs (a division of the scores by \<open>sqrt 0\<close>), which the
  real-valued model does not represent.
\<close>

type_synonym vec = "real list"
type_synonym mat = "real list list"
type_synonym tensor3 = "real list list list"
type_synonym tensor4 = "real list list list list"

datatype error =
    RuntimeError | ZeroDivisionError | ValueError
  | ConfigurationError | CommunicationError | NonFinite

definition ebind :: "error + 'a \<Rightarrow> ('a \<Rightarrow> error + 'b) \<Rightarrow> error + 'b" where
  "ebind m f = (case m of Inl e \<Rightarrow> Inl e | Inr x \<Rightarrow> f x)"

fun mapM :: "('a \<Rightarrow> error + 'b) \<Rightarrow> 'a list \<Rightarrow> error + 'b list" where
  "mapM f [] = Inr []"
| "mapM f (x # xs) = ebind (f x) (\<lambda>y. ebind (mapM f xs) (\<lambda>ys. Inr (y # ys)))"

text \<open>Shape predicates: a matrix with \<open>r\<close> rows of \<open>c\<close> entries, and so on.\<close>

definition is_mat :: "nat \<Rightarrow> nat \<Rightarrow> 'a list list \<Rightarrow> bool" where
  "is_mat r c m \<longleftrightarrow> length m = r \<and> list_all (\<lambda>row. length row = c) m"

definition is_tensor3 :: "nat \<Rightarrow> nat \<Rightarrow> nat \<Rightarrow> 'a list list list \<Rightarrow> bool" where
  "is_tensor3 b s c t \<longleftrightarrow> length t = b \<and> list_all (is_mat s c) t"

definition is_tensor4 :: "nat \<Rightarrow> nat \<Rightarrow> nat \<Rightarrow> nat \<Rightarrow> 'a list list list list \<Rightarrow> bool" where
  "is_tensor4 b h s c t \<longleftrightarrow> length t = b \<and> list_all (is_tensor3 h s c) t"

text \<open>
  Broadcasting of one axis, as \<^verbatim>\<open>torch\<close> does it for every elementwise operation:
  two axes are compatible when their lengths are equal or one of them is 1, and the
  axis of length 1 is repeated.
\<close>

definition broadcast_zip :: "'a list \<Rightarrow> 'b list \<Rightarrow> error + ('a \<times> 'b) list" where
  "broadcast_zip xs ys =
     (if length xs = length ys then Inr (zip xs ys)
      else if length xs = 1 then Inr (map (\<lambda>y. (hd xs, y)) ys)
      else if length ys = 1 then Inr (map (\<lambda>x. (x, hd ys)) xs)
      else Inl RuntimeError)"

definition dot :: "vec \<Rightarrow> vec \<Rightarrow> real" where
  "dot xs ys = sum_list (map2 (*) xs ys)"

definition ncols :: "'a list list \<Rightarrow> nat" where
  "ncols m = (case m of [] \<Rightarrow> 0 | r # _ \<Rightarrow> length r)"

definition column :: "nat \<Rightarrow> 'a list list \<Rightarrow> 'a list" where
  "column c m = map (\<lambda>r. r ! c) m"

text \<open>\<^verbatim>\<open>t.transpose(-1, -2)\<close> of a matrix; also the exchange of any two adjacent axes.\<close>

definition swap_axes :: "'a list list \<Rightarrow> 'a list list" where
  "swap_axes m = map (\<lambda>c. column c m) [0..<ncols m]"

text \<open>\<^verbatim>\<open>torch.matmul\<close> of two matrices: the inner lengths must agree.\<close>

definition matmul :: "mat \<Rightarrow> mat \<Rightarrow> error + mat" where
  "matmul a b =
     (if list_all (\<lambda>row. length row = length b) a
      then Inr (map (\<lambda>row. map (\<lambda>c. dot row (column c b)) [0..<ncols b]) a)
      else Inl RuntimeError)"

text \<open>\<^verbatim>\<open>torch.matmul\<close> of two 4-axis tensors: the two leading axes are broadcast.\<close>

definition matmul4 :: "tensor4 \<Rightarrow> tensor4 \<Rightarrow> error + tensor4" where
  "matmul4 a b =
     ebind (broadcast_zip a b) (mapM (\<lambda>(ab, bb).
       ebind (broadcast_zip ab bb) (mapM (\<lambda>(am, bm). matmul am bm))))"

text \<open>\<^verbatim>\<open>math.sqrt\<close> of a Python integer raises \<^verbatim>\<open>ValueError\<close> below zero.\<close>

definition py_sqrt :: "int \<Rightarrow> error + real" where
  "py_sqrt n = (if n < 0 then Inl ValueError else Inr (sqrt (real_of_int n)))"

text \<open>\<^verbatim>\<open>x / s\<close> for a tensor \<open>x\<close> and a Python float \<open>s\<close>.\<close>

definition div_scalar :: "tensor4 \<Rightarrow> real \<Rightarrow> error + tensor4" where
  "div_scalar x s =
     (if s = 0 then Inl NonFinite else Inr (map (map (map (map (\<lambda>v. v / s)))) x))"

text \<open>\<^verbatim>\<open>t.size(-2)\<close> of a 4-axis tensor.\<close>

definition size_m2 :: "'a list list list list \<Rightarrow> nat" where
  "size_m2 t = (case t of [] \<Rightarrow> 0 | b # _ \<Rightarrow> (case b of [] \<Rightarrow> 0 | m # _ \<Rightarrow> length m))"

text \<open>\<^verbatim>\<open>torch.tril(torch.ones((q_len, k_len))).bool()\<close>: true on and below the diagonal.\<close>

definition tril_ones :: "nat \<Rightarrow> nat \<Rightarrow> bool list list" where
  "tril_ones q_len k_len = map (\<lambda>i. map (\<lambda>j. j \<le> i) [0..<k_len]) [0..<q_len]"

text \<open>
  \<^verbatim>\<open>torch.where(mask, x, c)\<close> for a mask of shape \<^verbatim>\<open>[1, 1, mq, mk]\<close>: the two
  trailing axes of mask and tensor are broadcast against each other, the two leading
  axes of the mask have length 1 and are repeated.
\<close>

definition where_mat :: "bool list list \<Rightarrow> mat \<Rightarrow> real \<Rightarrow> error + mat" where
  "where_mat msk x c =
     ebind (broadcast_zip msk x) (mapM (\<lambda>(mrow, xrow).
       ebind (broadcast_zip mrow xrow)
         (\<lambda>ps. Inr (map (\<lambda>(m, v). if m then v else c) ps))))"

definition where4 :: "bool list list \<Rightarrow> tensor4 \<Rightarrow> real \<Rightarrow> error + tensor4" where
  "where4 msk x c = mapM (mapM (\<lambda>xm. where_mat msk xm c)) x"

text \<open>\<^verbatim>\<open>nn.Softmax(dim=-1)\<close> on one row.\<close>

definition softmax :: "vec \<Rightarrow> vec" where
  "softmax xs = map (\<lambda>x. exp x / sum_list (map exp xs)) xs"

text \<open>
  \<^verbatim>\<open>x.transpose(1, 2)\<close> followed by \<^verbatim>\<open>x.reshape(x.size()[:-2] + (-1,))\<close>: the head
  axis is moved behind the sequence axis and merged with the feature axis. The
  \<^verbatim>\<open>-1\<close> cannot be inferred for a tensor without elements in the two leading axes.
\<close>

definition merge_heads :: "tensor4 \<Rightarrow> error + tensor3" where
  "merge_heads x =
     (let y = map swap_axes x
      in if y = [] \<or> list_ex (\<lambda>item. item = []) y then Inl RuntimeError
         else Inr (map (map concat) y))"

subsection \<open>Dropout\<close>

text \<open>
  \<^verbatim>\<open>nn.Dropout(p)\<close>. The constructor rejects a rate outside \<open>[0, 1]\<close>; a module is in
  training mode after construction. The forward pass returns its input when the rate
  is 0 or the module is not training, zeroes it when the rate is 1, and otherwise
  keeps each entry with probability \<open>1 - p\<close>, scaled by \<open>1 / (1 - p)\<close>. The random
  choice is the argument \<open>keep\<close>.
\<close>

record Dropout =
  drop_p :: real
  training :: bool

type_synonym noise2 = "nat \<Rightarrow> nat \<Rightarrow> bool"
type_synonym noise3 = "nat \<Rightarrow> nat \<Rightarrow> nat \<Rightarrow> bool"
type_synonym noise4 = "nat \<Rightarrow> nat \<Rightarrow> nat \<Rightarrow> nat \<Rightarrow> bool"

definition Dropout_init :: "real \<Rightarrow> error + Dropout" where
  "Dropout_init pr =
     (if pr < 0 \<or> 1 < pr then Inl ValueError
      else Inr \<lparr>drop_p = pr, training = True\<rparr>)"

definition dropout_elem :: "Dropout \<Rightarrow> bool \<Rightarrow> real \<Rightarrow> real" where
  "dropout_elem d keep v =
     (if drop_p d = 0 \<or> \<not> training d then v
      else if drop_p d = 1 then 0
      else if keep then v / (1 - drop_p d) else 0)"

definition imap :: "(nat \<Rightarrow> 'a \<Rightarrow> 'b) \<Rightarrow> 'a list \<Rightarrow> 'b list" where
  "imap f xs = map (\<lambda>i. f i (xs ! i)) [0..<length xs]"

definition dropout_mat :: "Dropout \<Rightarrow> noise2 \<Rightarrow> mat \<Rightarrow> mat" where
  "dropout_mat d keep m = imap (\<lambda>i. imap (\<lambda>j. dropout_elem d (keep i j))) m"

definition dropout3 :: "Dropout \<Rightarrow> noise3 \<Rightarrow> tensor3 \<Rightarrow> tensor3" where
  "dropout3 d keep x = imap (\<lambda>b. dropout_mat d (keep b)) x"

definition dropout4 :: "Dropout \<Rightarrow> noise4 \<Rightarrow> tensor4 \<Rightarrow> tensor4" where
  "dropout4 d keep x = imap (\<lambda>b. imap (\<lambda>h. dropout_mat d (keep b h))) x"

section \<open>AttentionCore\<close>

record AttentionCore =
  attention_head_size :: int
  attention_dropout :: Dropout
  causal_mask :: "bool list list option"
  where_const :: real

definition AttentionCore_init :: "int \<Rightarrow> real \<Rightarrow> error + AttentionCore" where
  "AttentionCore_init head_size attention_dropout_p =
     ebind (Dropout_init attention_dropout_p) (\<lambda>d.
       Inr \<lparr>attention_head_size = head_size, attention_dropout = d,
            causal_mask = None, where_const = - 10000\<rparr>)"

text \<open>Lines 26 and 27: the scaled scores.\<close>

definition attention_scores :: "AttentionCore \<Rightarrow> tensor4 \<Rightarrow> tensor4 \<Rightarrow> error + tensor4" where
  "attention_scores self q k =
     ebind (matmul4 q (map (map swap_axes) k)) (\<lambda>x.
       ebind (py_sqrt (attention_head_size self)) (\<lambda>r. div_scalar x r))"

text \<open>
  Lines 30 to 35: the mask is built only when the field is \<^verbatim>\<open>None\<close>, from the lengths
  of this call; otherwise the stored mask is taken as it is.
\<close>

definition get_causal_mask ::
  "AttentionCore \<Rightarrow> tensor4 \<Rightarrow> tensor4 \<Rightarrow> AttentionCore \<times> bool list list" where
  "get_causal_mask self q k =
     (case causal_mask self of
        None \<Rightarrow> (let m = tril_ones (size_m2 q) (size_m2 k)
                 in (self\<lparr>causal_mask := Some m\<rparr>, m))
      | Some m \<Rightarrow> (self, m))"

text \<open>Lines 26 to 37: the attention weights after the softmax, and the instance after the call.\<close>

definition attention_probs ::
  "AttentionCore \<Rightarrow> tensor4 \<Rightarrow> tensor4 \<Rightarrow> AttentionCore \<times> (error + tensor4)" where
  "attention_probs self q k =
     (case attention_scores self q k of
        Inl e \<Rightarrow> (self, Inl e)
      | Inr x \<Rightarrow>
          (let (self', msk) = get_causal_mask self q k
           in (self', ebind (where4 msk x (where_const self'))
                        (\<lambda>x. Inr (map (map (map softmax)) x)))))"

definition AttentionCore_forward ::
  "AttentionCore \<Rightarrow> noise4 \<Rightarrow> tensor4 \<Rightarrow> tensor4 \<Rightarrow> tensor4 \<Rightarrow> AttentionCore \<times> (error + tensor3)" where
  "AttentionCore_forward self keep q k v =
     (let (self', probs) = attention_probs self q k
      in (self', ebind probs (\<lambda>x.
            ebind (matmul4 (dropout4 (attention_dropout self') keep x) v) merge_heads)))"

section \<open>Sharded linear layers\<close>

text \<open>
  Modelled from the spec: \<^verbatim>\<open>ColumnParallelLinear\<close> and \<^verbatim>\<open>RowParallelLinear\<close> are
  imported from the \<^verbatim>\<open>fairscale\<close> library and are not part of the sources; the
  definitions of this section follow section 4.1 of the specification. The weight is
  logically \<^verbatim>\<open>[in_dim, out_dim]\<close>. The column variant owns the columns
  \<open>[out_dim / world_size * rank, out_dim / world_size * (rank + 1))\<close> and the matching
  slice of the bias, takes a replicated input and returns \<open>input \<cdot> local_weight +
  local_bias\<close> without gathering. The row variant owns the rows
  \<open>[in_dim / world_size * rank, in_dim / world_size * (rank + 1))\<close>, takes an input that is
  already sharded along its last axis, and returns the all-reduce sum of the partial
  products of all participants, with the bias added once after the reduction.
  Construction fails when the sharded dimension is not divisible by the world size.

  The freshly initialised (or loaded) logical weight and bias are the argument
  \<open>linear_params\<close>: entry \<open>(t, c)\<close> of the weight and entry \<open>c\<close> of the bias. The world
  size and the rank of the process, ambient state of the model-parallel group in the
  code, are explicit arguments.
\<close>

record linear_params =
  lp_weight :: "nat \<Rightarrow> nat \<Rightarrow> real"
  lp_bias :: "nat \<Rightarrow> real"

definition master_weight :: "nat \<Rightarrow> nat \<Rightarrow> linear_params \<Rightarrow> mat" where
  "master_weight n_in n_out lp = map (\<lambda>t. map (\<lambda>c. lp_weight lp t c) [0..<n_out]) [0..<n_in]"

definition master_bias :: "nat \<Rightarrow> linear_params \<Rightarrow> vec" where
  "master_bias n_out lp = map (lp_bias lp) [0..<n_out]"

text \<open>The slice \<open>[w * rank, w * (rank + 1))\<close> of a list.\<close>

definition shard :: "nat \<Rightarrow> nat \<Rightarrow> 'a list \<Rightarrow> 'a list" where
  "shard w rank xs = take w (drop (w * rank) xs)"

record ColumnParallelLinear =
  cpl_weight :: mat
  cpl_bias :: vec

record RowParallelLinear =
  rpl_weight :: mat
  rpl_bias :: vec

definition ColumnParallelLinear_init ::
  "nat \<Rightarrow> nat \<Rightarrow> linear_params \<Rightarrow> int \<Rightarrow> int \<Rightarrow> error + ColumnParallelLinear" where
  "ColumnParallelLinear_init world_size rank lp in_features out_features =
     (if world_size = 0 \<or> out_features mod int world_size \<noteq> 0 then Inl ConfigurationError
      else if in_features < 0 \<or> out_features < 0 then Inl RuntimeError
      else
        (let w = nat out_features div world_size
         in Inr \<lparr>cpl_weight = map (shard w rank)
                                 (master_weight (nat in_features) (nat out_features) lp),
                 cpl_bias = shard w rank (master_bias (nat out_features) lp)\<rparr>))"

definition RowParallelLinear_init ::
  "nat \<Rightarrow> nat \<Rightarrow> linear_params \<Rightarrow> int \<Rightarrow> int \<Rightarrow> error + RowParallelLinear" where
  "RowParallelLinear_init world_size rank lp in_features out_features =
     (if world_size = 0 \<or> in_features mod int world_size \<noteq> 0 then Inl ConfigurationError
      else if in_features < 0 \<or> out_features < 0 then Inl RuntimeError
      else
        (let w = nat in_features div world_size
         in Inr \<lparr>rpl_weight = shard w rank
                                 (master_weight (nat in_features) (nat out_features) lp),
                 rpl_bias = master_bias (nat out_features) lp\<rparr>))"

text \<open>\<open>xv \<cdot> w\<close> for one input row and a weight with \<open>n_out\<close> columns.\<close>

definition vecmat :: "nat \<Rightarrow> mat \<Rightarrow> vec \<Rightarrow> vec" where
  "vecmat n_out w xv = map (\<lambda>c. dot xv (column c w)) [0..<n_out]"

definition linear_nobias :: "nat \<Rightarrow> mat \<Rightarrow> tensor3 \<Rightarrow> error + tensor3" where
  "linear_nobias n_out w x =
     (if list_all (list_all (\<lambda>xv. length xv = length w)) x
      then Inr (map (map (vecmat n_out w)) x)
      else Inl RuntimeError)"

definition add_bias :: "vec \<Rightarrow> tensor3 \<Rightarrow> tensor3" where
  "add_bias b x = map (map (\<lambda>row. map2 (+) row b)) x"

definition ColumnParallelLinear_forward :: "ColumnParallelLinear \<Rightarrow> tensor3 \<Rightarrow> error + tensor3" where
  "ColumnParallelLinear_forward self x =
     ebind (linear_nobias (length (cpl_bias self)) (cpl_weight self) x)
       (\<lambda>y. Inr (add_bias (cpl_bias self) y))"

text \<open>
  The communication primitive \<^verbatim>\<open>all_reduce_sum\<close>: the elementwise sum of the tensors
  of all participants, which must have one shape. The argument lists the tensor of
  every rank; every rank receives the result.
\<close>

definition shape3 :: "tensor3 \<Rightarrow> nat list list" where
  "shape3 t = map (map length) t"

definition add3 :: "tensor3 \<Rightarrow> tensor3 \<Rightarrow> tensor3" where
  "add3 a b = map2 (map2 (map2 (+))) a b"

definition all_reduce_sum :: "tensor3 list \<Rightarrow> error + tensor3" where
  "all_reduce_sum ts =
     (case ts of
        [] \<Rightarrow> Inl CommunicationError
      | t # rest \<Rightarrow>
          if list_all (\<lambda>u. shape3 u = shape3 t) rest then Inr (foldl add3 t rest)
          else Inl CommunicationError)"

text \<open>
  The row variant is a collective operation: its forward pass is given for the whole
  group, from the layer and the input of every rank to the output of every rank.
\<close>

definition RowParallelLinear_forward ::
  "RowParallelLinear list \<Rightarrow> tensor3 list \<Rightarrow> error + tensor3 list" where
  "RowParallelLinear_forward world xs =
     (if length xs \<noteq> length world then Inl CommunicationError
      else
        ebind (mapM (\<lambda>(self, x). linear_nobias (length (rpl_bias self)) (rpl_weight self) x)
                 (zip world xs))
          (\<lambda>partials. ebind (all_reduce_sum partials)
             (\<lambda>total. Inr (map (\<lambda>self. add_bias (rpl_bias self) total) world))))"

section \<open>FeedForward\<close>

text \<open>
  \<^verbatim>\<open>F.gelu\<close> is a function of the tensor library; it is the argument \<open>gelu\<close> of the
  constructor, stored in the field \<open>activation_func\<close> as the code does.
  A Python argument with a default value is an \<open>option\<close>: \<open>None\<close> takes the default.
\<close>

record FeedForward =
  hidden_size :: int
  ffn_hidden_size :: int
  dense_h_to_4h :: ColumnParallelLinear
  dense_4h_to_h :: RowParallelLinear
  activation_func :: "real \<Rightarrow> real"

record ffn_params =
  lp_h_to_4h :: linear_params
  lp_4h_to_h :: linear_params

definition default_arg :: "'a \<Rightarrow> 'a option \<Rightarrow> 'a" where
  "default_arg d a = (case a of None \<Rightarrow> d | Some v \<Rightarrow> v)"

definition FeedForward_init ::
  "nat \<Rightarrow> nat \<Rightarrow> (real \<Rightarrow> real) \<Rightarrow> ffn_params \<Rightarrow> int \<Rightarrow> int option \<Rightarrow> error + FeedForward" where
  "FeedForward_init world_size rank gelu ps hidden ratio =
     (let ffn = hidden * default_arg 4 ratio
      in ebind (ColumnParallelLinear_init world_size rank (lp_h_to_4h ps) hidden ffn) (\<lambda>c.
         ebind (RowParallelLinear_init world_size rank (lp_4h_to_h ps) ffn hidden) (\<lambda>r.
           Inr \<lparr>hidden_size = hidden, ffn_hidden_size = ffn,
                dense_h_to_4h = c, dense_4h_to_h = r, activation_func = gelu\<rparr>)))"

text \<open>Lines 65 and 66, on one rank: the local slice of the intermediate.\<close>

definition FeedForward_intermediate :: "FeedForward \<Rightarrow> tensor3 \<Rightarrow> error + tensor3" where
  "FeedForward_intermediate self hidden_states =
     ebind (ColumnParallelLinear_forward (dense_h_to_4h self) hidden_states)
       (\<lambda>y. Inr (map (map (map (activation_func self))) y))"

definition FeedForward_forward :: "FeedForward list \<Rightarrow> tensor3 list \<Rightarrow> error + tensor3 list" where
  "FeedForward_forward world xs =
     (if length xs \<noteq> length world then Inl CommunicationError
      else
        ebind (mapM (\<lambda>(self, x). FeedForward_intermediate self x) (zip world xs))
          (\<lambda>intermediate_parallel.
             RowParallelLinear_forward (map dense_4h_to_h world) intermediate_parallel))"

section \<open>SelfAttention\<close>

record SelfAttention =
  sa_attention_head_size :: int
  sa_query :: ColumnParallelLinear
  sa_key :: ColumnParallelLinear
  sa_value :: ColumnParallelLinear
  sa_dense :: RowParallelLinear
  sa_dropout :: Dropout
  core_attention :: AttentionCore

record attn_params =
  lp_query :: linear_params
  lp_key :: linear_params
  lp_value :: linear_params
  lp_dense :: linear_params

definition SelfAttention_init ::
  "nat \<Rightarrow> nat \<Rightarrow> attn_params \<Rightarrow> int \<Rightarrow> int \<Rightarrow> real \<Rightarrow> real \<Rightarrow> error + SelfAttention" where
  "SelfAttention_init world_size rank ps hdim num_heads attention_dropout_p dropout_p =
     (if num_heads = 0 then Inl ZeroDivisionError
      else
        (let head_size = hdim div num_heads
         in ebind (ColumnParallelLinear_init world_size rank (lp_query ps) hdim hdim) (\<lambda>q.
            ebind (ColumnParallelLinear_init world_size rank (lp_key ps) hdim hdim) (\<lambda>k.
            ebind (ColumnParallelLinear_init world_size rank (lp_value ps) hdim hdim) (\<lambda>v.
            ebind (RowParallelLinear_init world_size rank (lp_dense ps) hdim hdim) (\<lambda>d.
            ebind (Dropout_init dropout_p) (\<lambda>dr.
            ebind (AttentionCore_init head_size attention_dropout_p) (\<lambda>core.
              Inr \<lparr>sa_attention_head_size = head_size, sa_query = q, sa_key = k,
                   sa_value = v, sa_dense = d, sa_dropout = dr,
                   core_attention = core\<rparr>))))))))"

text \<open>
  \<^verbatim>\<open>t.view(t.shape[:-1] + (n, d))\<close>: the last axis is cut into \<open>n\<close> pieces of length
  \<open>d\<close>; the number of elements must not change. In \<open>forward\<close>, \<open>n\<close> is the floor
  quotient of the last axis length by \<open>d\<close>, so a negative \<open>n\<close> or \<open>d\<close> is never a single
  inferable \<^verbatim>\<open>-1\<close> and the view raises.
\<close>

definition chunks :: "nat \<Rightarrow> nat \<Rightarrow> 'a list \<Rightarrow> 'a list list" where
  "chunks n d row = map (\<lambda>h. shard d h row) [0..<n]"

definition view_heads :: "int \<Rightarrow> int \<Rightarrow> tensor3 \<Rightarrow> error + tensor4" where
  "view_heads n d x =
     (if n < 0 \<or> d < 0 then Inl RuntimeError
      else if list_all (list_all (\<lambda>row. int (length row) = n * d)) x
      then Inr (map (map (chunks (nat n) (nat d))) x)
      else Inl RuntimeError)"

text \<open>\<^verbatim>\<open>t.permute((0, 2, 1, 3))\<close>.\<close>

definition permute_0213 :: "tensor4 \<Rightarrow> tensor4" where
  "permute_0213 t = map swap_axes t"

text \<open>
  Lines 93 to 108 on one rank: the three projections, split into heads and permuted.
  \<^verbatim>\<open>q.shape[-1]\<close> is the local output width of the query projection.
\<close>

definition SelfAttention_qkv ::
  "SelfAttention \<Rightarrow> tensor3 \<Rightarrow> error + (tensor4 \<times> tensor4 \<times> tensor4)" where
  "SelfAttention_qkv self x =
     ebind (ColumnParallelLinear_forward (sa_query self) x) (\<lambda>q.
     ebind (ColumnParallelLinear_forward (sa_key self) x) (\<lambda>k.
     ebind (ColumnParallelLinear_forward (sa_value self) x) (\<lambda>v.
       (let all_head_size = int (length (cpl_bias (sa_query self)))
        in if sa_attention_head_size self = 0 then Inl ZeroDivisionError
           else
             (let num_attention_heads = all_head_size div sa_attention_head_size self
              in ebind (view_heads num_attention_heads (sa_attention_head_size self) q) (\<lambda>q.
                 ebind (view_heads num_attention_heads (sa_attention_head_size self) k) (\<lambda>k.
                 ebind (view_heads num_attention_heads (sa_attention_head_size self) v) (\<lambda>v.
                   Inr (permute_0213 q, permute_0213 k, permute_0213 v)))))))))"

text \<open>Lines 93 to 110 on one rank: up to the merged context of the local heads.\<close>

definition SelfAttention_context ::
  "SelfAttention \<Rightarrow> noise4 \<Rightarrow> tensor3 \<Rightarrow> SelfAttention \<times> (error + tensor3)" where
  "SelfAttention_context self keep x =
     (case SelfAttention_qkv self x of
        Inl e \<Rightarrow> (self, Inl e)
      | Inr (q, k, v) \<Rightarrow>
          (let (core, r) = AttentionCore_forward (core_attention self) keep q k v
           in (self\<lparr>core_attention := core\<rparr>, r)))"

text \<open>
  The forward pass of the whole group: every rank computes its context, the row-sharded
  projection reduces over the ranks, every rank applies its output dropout. \<open>keep_a r\<close>
  and \<open>keep_o r\<close> are the random choices of rank \<open>r\<close> in the two dropouts.
\<close>

definition SelfAttention_forward ::
  "SelfAttention list \<Rightarrow> (nat \<Rightarrow> noise4) \<Rightarrow> (nat \<Rightarrow> noise3) \<Rightarrow> tensor3 list
     \<Rightarrow> SelfAttention list \<times> (error + tensor3 list)" where
  "SelfAttention_forward world keep_a keep_o xs =
     (if length xs \<noteq> length world then (world, Inl CommunicationError)
      else
        (let rs = imap (\<lambda>r (self, x). SelfAttention_context self (keep_a r) x) (zip world xs);
             world' = map fst rs
         in (world',
             ebind (mapM snd rs) (\<lambda>ctxs.
             ebind (RowParallelLinear_forward (map sa_dense world') ctxs) (\<lambda>ys.
               Inr (imap (\<lambda>r (self, y). dropout3 (sa_dropout self) (keep_o r) y)
                      (zip world' ys)))))))"

section \<open>GPTLayer and GPT\<close>

text \<open>
  \<^verbatim>\<open>nn.LayerNorm(normalized_shape=dim, eps=1e-6)\<close>: over the last axis, with the biased
  variance, an elementwise weight (initially 1) and bias (initially 0).
\<close>

record LayerNorm =
  ln_weight :: vec
  ln_bias :: vec
  ln_eps :: real

definition LayerNorm_init :: "int \<Rightarrow> error + LayerNorm" where
  "LayerNorm_init hdim =
     (if hdim < 0 then Inl RuntimeError
      else Inr \<lparr>ln_weight = replicate (nat hdim) 1, ln_bias = replicate (nat hdim) 0,
                ln_eps = 1 / 1000000\<rparr>)"

definition layer_norm_row :: "LayerNorm \<Rightarrow> vec \<Rightarrow> vec" where
  "layer_norm_row self xv =
     (let n = real (length xv);
          mean = sum_list xv / n;
          var = sum_list (map (\<lambda>v. (v - mean)\<^sup>2) xv) / n
      in map (\<lambda>(v, g, b). (v - mean) / sqrt (var + ln_eps self) * g + b)
           (zip xv (zip (ln_weight self) (ln_bias self))))"

definition LayerNorm_forward :: "LayerNorm \<Rightarrow> tensor3 \<Rightarrow> error + tensor3" where
  "LayerNorm_forward self x =
     (if list_all (list_all (\<lambda>xv. length xv = length (ln_weight self))) x
      then Inr (map (map (layer_norm_row self)) x)
      else Inl RuntimeError)"

text \<open>\<^verbatim>\<open>a + b\<close> for two 3-axis tensors, with broadcasting of every axis.\<close>

definition tensor_add :: "tensor3 \<Rightarrow> tensor3 \<Rightarrow> error + tensor3" where
  "tensor_add a b =
     ebind (broadcast_zip a b) (mapM (\<lambda>(am, bm).
       ebind (broadcast_zip am bm) (mapM (\<lambda>(ar, br).
         ebind (broadcast_zip ar br) (\<lambda>ps. Inr (map (\<lambda>(u, v). u + v) ps))))))"

record GPTLayer =
  norm1 :: LayerNorm
  attn :: SelfAttention
  norm2 :: LayerNorm
  mlp :: FeedForward

record layer_params =
  lp_attn :: attn_params
  lp_mlp :: ffn_params

record layer_noise =
  attn_keep :: "nat \<Rightarrow> noise4"
  out_keep :: "nat \<Rightarrow> noise3"

definition GPTLayer_init ::
  "nat \<Rightarrow> nat \<Rightarrow> (real \<Rightarrow> real) \<Rightarrow> layer_params \<Rightarrow> int \<Rightarrow> int \<Rightarrow> int option \<Rightarrow> real \<Rightarrow> real
     \<Rightarrow> error + GPTLayer" where
  "GPTLayer_init world_size rank gelu ps hdim num_heads mlp_ratio attention_dropout_p dropout_p =
     ebind (LayerNorm_init hdim) (\<lambda>n1.
     ebind (SelfAttention_init world_size rank (lp_attn ps) hdim num_heads
              attention_dropout_p dropout_p) (\<lambda>a.
     ebind (LayerNorm_init hdim) (\<lambda>n2.
     ebind (FeedForward_init world_size rank gelu (lp_mlp ps) hdim
              (Some (default_arg 4 mlp_ratio))) (\<lambda>m.
       Inr \<lparr>norm1 = n1, attn = a, norm2 = n2, mlp = m\<rparr>))))"

definition GPTLayer_forward ::
  "GPTLayer list \<Rightarrow> layer_noise \<Rightarrow> tensor3 list \<Rightarrow> GPTLayer list \<times> (error + tensor3 list)" where
  "GPTLayer_forward world noise xs =
     (if length xs \<noteq> length world then (world, Inl CommunicationError)
      else
        (case mapM (\<lambda>(self, x). LayerNorm_forward (norm1 self) x) (zip world xs) of
           Inl e \<Rightarrow> (world, Inl e)
         | Inr n1s \<Rightarrow>
             (let (attns, r) = SelfAttention_forward (map attn world)
                                 (attn_keep noise) (out_keep noise) n1s;
                  world' = map (\<lambda>(self, a). self\<lparr>attn := a\<rparr>) (zip world attns)
              in (world',
                  ebind r (\<lambda>as.
                  ebind (mapM (\<lambda>(x, a). tensor_add x a) (zip xs as)) (\<lambda>x1s.
                  ebind (mapM (\<lambda>(self, x). LayerNorm_forward (norm2 self) x)
                           (zip world' x1s)) (\<lambda>n2s.
                  ebind (FeedForward_forward (map mlp world') n2s) (\<lambda>ms.
                    mapM (\<lambda>(x, m). tensor_add x m) (zip x1s ms)))))))))"

record GPT =
  blocks :: "GPTLayer list"

definition GPT_init ::
  "nat \<Rightarrow> nat \<Rightarrow> (real \<Rightarrow> real) \<Rightarrow> (nat \<Rightarrow> layer_params) \<Rightarrow> int \<Rightarrow> int \<Rightarrow> int \<Rightarrow> int option
     \<Rightarrow> real \<Rightarrow> real \<Rightarrow> error + GPT" where
  "GPT_init world_size rank gelu ps depth hdim num_heads mlp_ratio attention_dropout_p dropout_p =
     ebind (mapM (\<lambda>i. GPTLayer_init world_size rank gelu (ps i) hdim num_heads mlp_ratio
                         attention_dropout_p dropout_p) [0..<nat depth])
       (\<lambda>bs. Inr \<lparr>blocks = bs\<rparr>)"

text \<open>
  The loop of \<open>GPT.forward\<close> over the blocks, for the whole group: the argument lists,
  for every block in order, that block on every rank.
\<close>

fun blocks_forward ::
  "GPTLayer list list \<Rightarrow> (nat \<Rightarrow> layer_noise) \<Rightarrow> nat \<Rightarrow> tensor3 list
     \<Rightarrow> GPTLayer list list \<times> (error + tensor3 list)" where
  "blocks_forward [] noise i xs = ([], Inr xs)"
| "blocks_forward (block # rest) noise i xs =
     (case GPTLayer_forward block (noise i) xs of
        (block', Inl e) \<Rightarrow> (block' # rest, Inl e)
      | (block', Inr ys) \<Rightarrow>
          (let (rest', r) = blocks_forward rest noise (Suc i) ys
           in (block' # rest', r)))"

definition GPT_forward ::
  "GPT list \<Rightarrow> (nat \<Rightarrow> layer_noise) \<Rightarrow> tensor3 list \<Rightarrow> GPT list \<times> (error + tensor3 list)" where
  "GPT_forward world noise xs =
     (let (layers, r) = blocks_forward (swap_axes (map blocks world)) noise 0 xs
      in (imap (\<lambda>rank self. self\<lparr>blocks := map (\<lambda>layer. layer ! rank) layers\<rparr>) world, r))"

section \<open>Lists given by their entries\<close>

text \<open>
  \<open>tab n f\<close> is the list \<open>[f 0, \<dots>, f (n - 1)]\<close>. It is used to write a tensor of a
  known shape by its entries.
\<close>

definition tab :: "nat \<Rightarrow> (nat \<Rightarrow> 'a) \<Rightarrow> 'a list" where
  "tab n f = map f [0..<n]"

section \<open>The attention kernel in the words of the specification\<close>

text \<open>
  Section 4.2 of the specification, entry by entry: the raw score of query position
  \<open>i\<close> and key position \<open>j\<close> is the product of the two rows, scaled by
  \<open>1 / sqrt attention_head_size\<close>; a position above the diagonal takes the masking
  constant; the weights are the softmax over the key axis; the context multiplies the
  weights after dropout by the values; the heads are merged into the feature axis, head
  \<open>c div d\<close> at offset \<open>c mod d\<close>.
\<close>

definition spec_score :: "AttentionCore \<Rightarrow> tensor4 \<Rightarrow> tensor4 \<Rightarrow> nat \<Rightarrow> nat \<Rightarrow> nat \<Rightarrow> nat \<Rightarrow> real" where
  "spec_score self q k bi hi i j =
     dot (q ! bi ! hi ! i) (k ! bi ! hi ! j) / sqrt (real_of_int (attention_head_size self))"

definition spec_masked :: "AttentionCore \<Rightarrow> tensor4 \<Rightarrow> tensor4 \<Rightarrow> nat \<Rightarrow> nat \<Rightarrow> nat \<Rightarrow> nat \<Rightarrow> real" where
  "spec_masked self q k bi hi i j =
     (if j \<le> i then spec_score self q k bi hi i j else where_const self)"

definition spec_weight ::
  "AttentionCore \<Rightarrow> nat \<Rightarrow> tensor4 \<Rightarrow> tensor4 \<Rightarrow> nat \<Rightarrow> nat \<Rightarrow> nat \<Rightarrow> nat \<Rightarrow> real" where
  "spec_weight self k_len q k bi hi i j =
     exp (spec_masked self q k bi hi i j) / (\<Sum>t<k_len. exp (spec_masked self q k bi hi i t))"

definition attention_spec ::
  "AttentionCore \<Rightarrow> noise4 \<Rightarrow> nat \<Rightarrow> nat \<Rightarrow> nat \<Rightarrow> nat \<Rightarrow> nat
     \<Rightarrow> tensor4 \<Rightarrow> tensor4 \<Rightarrow> tensor4 \<Rightarrow> tensor3" where
  "attention_spec self keep b h q_len k_len d q k v =
     tab b (\<lambda>bi. tab q_len (\<lambda>i. tab (h * d) (\<lambda>c.
       \<Sum>j<k_len. dropout_elem (attention_dropout self) (keep bi (c div d) i j)
                     (spec_weight self k_len q k bi (c div d) i j)
                   * v ! bi ! (c div d) ! j ! (c mod d))))"

section \<open>The dense computation and the group of all ranks\<close>

text \<open>
  \<open>projected lp n x bi i c\<close> is entry \<open>c\<close> of the unsharded linear projection of row
  \<open>x[bi][i]\<close> with the logical weight and bias \<open>lp\<close>. \<open>FeedForward_dense\<close> is the
  unsharded feed-forward computation, entry by entry. \<open>FeedForward_world\<close> constructs
  the instance of every rank of a group, in rank order.
\<close>

definition projected :: "linear_params \<Rightarrow> nat \<Rightarrow> tensor3 \<Rightarrow> nat \<Rightarrow> nat \<Rightarrow> nat \<Rightarrow> real" where
  "projected lp n_in x bi i c = (\<Sum>t<n_in. x ! bi ! i ! t * lp_weight lp t c) + lp_bias lp c"

definition FeedForward_world ::
  "nat \<Rightarrow> (real \<Rightarrow> real) \<Rightarrow> ffn_params \<Rightarrow> int \<Rightarrow> int option \<Rightarrow> error + FeedForward list" where
  "FeedForward_world world_size gelu ps hidden ratio =
     mapM (\<lambda>rank. FeedForward_init world_size rank gelu ps hidden ratio) [0..<world_size]"

definition FeedForward_dense ::
  "(real \<Rightarrow> real) \<Rightarrow> ffn_params \<Rightarrow> nat \<Rightarrow> nat \<Rightarrow> tensor3 \<Rightarrow> nat \<Rightarrow> nat \<Rightarrow> nat \<Rightarrow> real" where
  "FeedForward_dense gelu ps n_hidden n_ffn x bi i c =
     (\<Sum>t<n_ffn. gelu (projected (lp_h_to_4h ps) n_hidden x bi i t)
                   * lp_weight (lp_4h_to_h ps) t c)
     + lp_bias (lp_4h_to_h ps) c"

text \<open>
  \<open>SelfAttention_world\<close> constructs the instance of every rank. \<open>local_heads\<close> is the
  tensor \<open>[b, n, s, d]\<close> of the heads of one rank, by its entries. \<open>SelfAttention_dense\<close> is
  the unsharded attention sublayer entry by entry: the scaled score of head \<open>g\<close>, its
  causal masking with the constant \<open>- 10000\<close>, the softmax weights, the context of
  feature \<open>c\<close> (head \<open>c div A\<close>), and the output projection with its dropout.
  \<open>attention_then_feedforward\<close> is the end-to-end composition on a group: the output of
  the attention sublayer of every rank is the input of the feed-forward sublayer.
\<close>

definition SelfAttention_world ::
  "nat \<Rightarrow> attn_params \<Rightarrow> int \<Rightarrow> int \<Rightarrow> real \<Rightarrow> real \<Rightarrow> error + SelfAttention list" where
  "SelfAttention_world world_size ps hdim num_heads attention_dropout_p dropout_p =
     mapM (\<lambda>rank. SelfAttention_init world_size rank ps hdim num_heads
                      attention_dropout_p dropout_p) [0..<world_size]"

definition local_heads :: "linear_params \<Rightarrow> nat \<Rightarrow> nat \<Rightarrow> nat \<Rightarrow> nat \<Rightarrow> nat \<Rightarrow> nat \<Rightarrow> nat
    \<Rightarrow> tensor3 \<Rightarrow> tensor4" where
  "local_heads lp n_in w rank b n s d x =
     tab b (\<lambda>bi. tab n (\<lambda>hh. tab s (\<lambda>i. tab d (\<lambda>t.
       projected lp n_in x bi i (w * rank + (d * hh + t))))))"

definition dense_score :: "attn_params \<Rightarrow> nat \<Rightarrow> nat \<Rightarrow> tensor3 \<Rightarrow> nat \<Rightarrow> nat \<Rightarrow> nat \<Rightarrow> nat \<Rightarrow> real" where
  "dense_score ps A n_in x bi g i j =
     (\<Sum>t<A. projected (lp_query ps) n_in x bi i (A * g + t)
             * projected (lp_key ps) n_in x bi j (A * g + t)) / sqrt (real A)"

definition dense_masked :: "attn_params \<Rightarrow> nat \<Rightarrow> nat \<Rightarrow> tensor3 \<Rightarrow> nat \<Rightarrow> nat \<Rightarrow> nat \<Rightarrow> nat \<Rightarrow> real" where
  "dense_masked ps A n_in x bi g i j =
     (if j \<le> i then dense_score ps A n_in x bi g i j else - 10000)"

definition dense_weight ::
  "attn_params \<Rightarrow> nat \<Rightarrow> nat \<Rightarrow> nat \<Rightarrow> tensor3 \<Rightarrow> nat \<Rightarrow> nat \<Rightarrow> nat \<Rightarrow> nat \<Rightarrow> real" where
  "dense_weight ps A n_in s x bi g i j =
     exp (dense_masked ps A n_in x bi g i j) / (\<Sum>t<s. exp (dense_masked ps A n_in x bi g i t))"

definition dense_context ::
  "attn_params \<Rightarrow> nat \<Rightarrow> nat \<Rightarrow> nat \<Rightarrow> Dropout \<Rightarrow> noise4 \<Rightarrow> tensor3 \<Rightarrow> nat \<Rightarrow> nat \<Rightarrow> nat \<Rightarrow> real" where
  "dense_context ps A n_in s ad keep x bi i c =
     (\<Sum>j<s. dropout_elem ad (keep bi (c div A) i j) (dense_weight ps A n_in s x bi (c div A) i j)
             * projected (lp_value ps) n_in x bi j c)"

definition SelfAttention_dense ::
  "attn_params \<Rightarrow> nat \<Rightarrow> nat \<Rightarrow> nat \<Rightarrow> Dropout \<Rightarrow> Dropout \<Rightarrow> noise4 \<Rightarrow> noise3 \<Rightarrow> tensor3
     \<Rightarrow> nat \<Rightarrow> nat \<Rightarrow> nat \<Rightarrow> real" where
  "SelfAttention_dense ps A n_in s ad od keep_a keep_o x bi i c =
     dropout_elem od (keep_o bi i c)
       ((\<Sum>t<n_in. dense_context ps A n_in s ad keep_a x bi i t * lp_weight (lp_dense ps) t c)
        + lp_bias (lp_dense ps) c)"

definition attention_then_feedforward ::
  "nat \<Rightarrow> (real \<Rightarrow> real) \<Rightarrow> attn_params \<Rightarrow> ffn_params \<Rightarrow> int \<Rightarrow> int \<Rightarrow> int option
     \<Rightarrow> real \<Rightarrow> real \<Rightarrow> (nat \<Rightarrow> noise4) \<Rightarrow> (nat \<Rightarrow> noise3) \<Rightarrow> tensor3
     \<Rightarrow> error + tensor3 list" where
  "attention_then_feedforward world_size gelu aps fps hdim num_heads ratio
       attention_dropout_p dropout_p keep_a keep_o x =
     ebind (SelfAttention_world world_size aps hdim num_heads attention_dropout_p dropout_p)
       (\<lambda>attention.
     ebind (FeedForward_world world_size gelu fps hdim ratio) (\<lambda>feed_forward.
     ebind (snd (SelfAttention_forward attention keep_a keep_o (replicate world_size x)))
       (\<lambda>ys. FeedForward_forward feed_forward ys)))"

section \<open>Concrete instances and inputs for the examples\<close>

definition fresh_core :: AttentionCore where
  "fresh_core = \<lparr>attention_head_size = 1,
                  attention_dropout = \<lparr>drop_p = 0, training = True\<rparr>,
                  causal_mask = None, where_const = - 10000\<rparr>"

definition keep_all :: noise4 where
  "keep_all b h i j = True"

definition qkv_len1 :: tensor4 where
  "qkv_len1 = [[[[0]]]]"

definition qkv_len2 :: tensor4 where
  "qkv_len2 = [[[[0], [0]]]]"

definition ex_lp :: linear_params where
  "ex_lp = \<lparr>lp_weight = (\<lambda>t c. if t = c then 1 else 0), lp_bias = (\<lambda>c. 0)\<rparr>"

definition ex_attn_params :: attn_params where
  "ex_attn_params = \<lparr>lp_query = ex_lp, lp_key = ex_lp, lp_value = ex_lp, lp_dense = ex_lp\<rparr>"

definition ex_ffn_params :: ffn_params where
  "ex_ffn_params = \<lparr>lp_h_to_4h = ex_lp, lp_4h_to_h = ex_lp\<rparr>"

definition ex_layer_params :: layer_params where
  "ex_layer_params = \<lparr>lp_attn = ex_attn_params, lp_mlp = ex_ffn_params\<rparr>"

definition ex_gpt_params :: "nat \<Rightarrow> layer_params" where
  "ex_gpt_params i = ex_layer_params"

definition relu :: "real \<Rightarrow> real" where
  "relu x = max 0 x"

section \<open>The block in the words of the specification\<close>

text \<open>
  Section 4.5 of the specification: \<^verbatim>\<open>x = x + SelfAttention(Normalize1(x))\<close>, then
  \<^verbatim>\<open>x = x + FeedForward(Normalize2(x))\<close>. \<open>residual\<close> adds the output of a sublayer to
  its input, on every rank.
\<close>

definition residual ::
  "(tensor3 list \<Rightarrow> error + tensor3 list) \<Rightarrow> tensor3 list \<Rightarrow> error + tensor3 list" where
  "residual sublayer xs =
     ebind (sublayer xs) (\<lambda>ys. mapM (\<lambda>(x, y). tensor_add x y) (zip xs ys))"

definition TransformerBlock_spec ::
  "GPTLayer list \<Rightarrow> layer_noise \<Rightarrow> tensor3 list \<Rightarrow> error + tensor3 list" where
  "TransformerBlock_spec world noise xs =
     ebind
       (residual (\<lambda>xs.
          ebind (mapM (\<lambda>(self, x). LayerNorm_forward (norm1 self) x) (zip world xs))
            (\<lambda>ns. snd (SelfAttention_forward (map attn world)
                          (attn_keep noise) (out_keep noise) ns))) xs)
       (residual (\<lambda>xs.
          ebind (mapM (\<lambda>(self, x). LayerNorm_forward (norm2 self) x) (zip world xs))
            (FeedForward_forward (map mlp world))))"


definition ex_x :: tensor3 where
  "ex_x = [[[1, 2], [3, 4]]]"

definition ex_keep_a :: "nat \<Rightarrow> noise4" where
  "ex_keep_a r bi hh i j = True"

definition ex_keep_o :: "nat \<Rightarrow> noise3" where
  "ex_keep_o r bi i c = True"

definition ex_x4 :: tensor3 where
  "ex_x4 = [[[1, 2, 3, 4], [5, 6, 7, 8]]]"

section \<open>Basic facts about the error plumbing\<close>

lemma ebind_Inr [simp]: "ebind (Inr x) f = f x"
  by (simp add: ebind_def)

lemma ebind_Inl [simp]: "ebind (Inl e) f = Inl e"
  by (simp add: ebind_def)

lemma ebind_eq_Inr: "ebind m f = Inr y \<longleftrightarrow> (\<exists>x. m = Inr x \<and> f x = Inr y)"
  by (cases m) simp_all

section \<open>The stack of depth 0\<close>

text \<open>
  Claim C9. A \<open>GPT\<close> constructed with \<open>depth = 0\<close> has no blocks, whatever the other
  arguments are, and its forward pass returns the input of every rank unchanged (same
  values, same shape) and leaves the instances as they are.
\<close>

theorem GPT_depth_0_identity:
  "GPT_init world_size rank gelu ps 0 hdim num_heads mlp_ratio attention_dropout_p dropout_p
     = Inr \<lparr>blocks = []\<rparr>
   \<and> GPT_forward (replicate n \<lparr>blocks = []\<rparr>) noise xs
     = (replicate n \<lparr>blocks = []\<rparr>, Inr xs)"
proof
  show "GPT_init world_size rank gelu ps 0 hdim num_heads mlp_ratio attention_dropout_p dropout_p
     = Inr \<lparr>blocks = []\<rparr>"
    by (simp add: GPT_init_def)
next
  have "swap_axes (map blocks (replicate n \<lparr>blocks = []\<rparr>)) = []"
    by (cases n) (simp_all add: swap_axes_def ncols_def)
  moreover have "imap (\<lambda>rank self. self\<lparr>blocks := []\<rparr>) (replicate n \<lparr>blocks = []\<rparr>)
      = replicate n \<lparr>blocks = []\<rparr>"
    by (simp add: imap_def list_eq_iff_nth_eq)
  ultimately show "GPT_forward (replicate n \<lparr>blocks = []\<rparr>) noise xs
     = (replicate n \<lparr>blocks = []\<rparr>, Inr xs)"
    by (simp add: GPT_forward_def)
qed

lemmas attention_eval =
  AttentionCore_forward_def attention_probs_def get_causal_mask_def attention_scores_def
  matmul4_def broadcast_zip_def matmul_def swap_axes_def ncols_def column_def py_sqrt_def
  div_scalar_def size_m2_def tril_ones_def where4_def where_mat_def softmax_def dot_def
  merge_heads_def dropout4_def dropout_mat_def imap_def dropout_elem_def
  AttentionCore_init_def Dropout_init_def Let_def

section \<open>The cached causal mask\<close>

lemma attention_probs_state:
  "fst (attention_probs self q k) =
     (case attention_scores self q k of
        Inl e \<Rightarrow> self
      | Inr x \<Rightarrow> fst (get_causal_mask self q k))"
  by (simp add: attention_probs_def split: sum.splits prod.splits)

lemma AttentionCore_forward_state:
  "fst (AttentionCore_forward self keep q k v) = fst (attention_probs self q k)"
  by (simp add: AttentionCore_forward_def split: prod.splits)

lemma get_causal_mask_Some:
  "causal_mask self = Some m \<Longrightarrow> get_causal_mask self q k = (self, m)"
  by (simp add: get_causal_mask_def)

lemma get_causal_mask_None:
  "causal_mask self = None \<Longrightarrow>
   get_causal_mask self q k =
     (self\<lparr>causal_mask := Some (tril_ones (size_m2 q) (size_m2 k))\<rparr>,
      tril_ones (size_m2 q) (size_m2 k))"
  by (simp add: get_causal_mask_def Let_def)

lemma attention_probs_Some:
  "causal_mask self = Some m \<Longrightarrow>
   attention_probs self q k =
     (self, ebind (attention_scores self q k) (\<lambda>x.
              ebind (where4 m x (where_const self)) (\<lambda>x. Inr (map (map (map softmax)) x))))"
  by (simp add: attention_probs_def get_causal_mask_Some split: sum.splits)

text \<open>
  Claim C2, as the code has it. The mask is built from the lengths of the call that
  finds the field empty. From then on the instance keeps that mask: a later call, at
  any lengths, leaves the field as it is and masks its scores with the stored mask.
  The stored mask is the mask of a later call exactly when that call has the lengths
  of the first one.
\<close>

theorem causal_mask_built_once:
  assumes "causal_mask self = None"
    and "attention_scores self q k = Inr x"
    and "self1 = fst (AttentionCore_forward self keep q k v)"
    and "m = tril_ones (size_m2 q) (size_m2 k)"
  shows "causal_mask self1 = Some m
    \<and> fst (AttentionCore_forward self1 keep' q' k' v') = self1
    \<and> snd (attention_probs self1 q' k') =
        ebind (attention_scores self1 q' k') (\<lambda>x.
          ebind (where4 m x (where_const self1)) (\<lambda>x. Inr (map (map (map softmax)) x)))
    \<and> (size_m2 q' = size_m2 q \<and> size_m2 k' = size_m2 k
         \<longrightarrow> m = tril_ones (size_m2 q') (size_m2 k'))"
proof -
  have s1: "self1 = self\<lparr>causal_mask := Some m\<rparr>"
    using assms
    by (simp add: AttentionCore_forward_state attention_probs_state get_causal_mask_None)
  then have cm: "causal_mask self1 = Some m"
    by simp
  have "fst (AttentionCore_forward self1 keep' q' k' v') = self1"
    by (simp add: AttentionCore_forward_state attention_probs_Some [OF cm])
  moreover have "snd (attention_probs self1 q' k') =
        ebind (attention_scores self1 q' k') (\<lambda>x.
          ebind (where4 m x (where_const self1)) (\<lambda>x. Inr (map (map (map softmax)) x)))"
    by (simp add: attention_probs_Some [OF cm])
  ultimately show ?thesis
    using cm assms(4) by simp
qed

theorem causal_mask_built_once_witness:
  "causal_mask fresh_core = None
   \<and> attention_scores fresh_core qkv_len1 qkv_len1 = Inr [[[[0]]]]
   \<and> causal_mask (fst (AttentionCore_forward fresh_core keep_all qkv_len1 qkv_len1 qkv_len1))
       = Some (tril_ones (size_m2 qkv_len1) (size_m2 qkv_len1))
   \<and> fst (AttentionCore_forward
            (fst (AttentionCore_forward fresh_core keep_all qkv_len1 qkv_len1 qkv_len1))
            keep_all qkv_len1 qkv_len1 qkv_len1)
       = fst (AttentionCore_forward fresh_core keep_all qkv_len1 qkv_len1 qkv_len1)"
proof -
  have h1: "causal_mask fresh_core = None"
    by (simp add: fresh_core_def)
  have h2: "attention_scores fresh_core qkv_len1 qkv_len1 = Inr [[[[0]]]]"
    by (simp add: fresh_core_def qkv_len1_def attention_eval)
  show ?thesis
    using h1 h2 causal_mask_built_once [OF h1 h2 refl refl,
        where keep = keep_all and v = qkv_len1 and keep' = keep_all
          and q' = qkv_len1 and k' = qkv_len1 and v' = qkv_len1]
    by simp
qed

text \<open>
  Claim C2, as stated, fails: after a first call at lengths \<open>(1, 1)\<close> the instance
  holds the mask \<open>[[True]]\<close>. A second call at lengths \<open>(2, 2)\<close> takes that mask, which
  is not the mask of its lengths, and broadcasts it over the scores: query position 0
  attends to the later key position 1 with weight \<open>1 / 2\<close>.
\<close>

theorem stale_causal_mask_counterexample:
  "AttentionCore_init 1 0 = Inr fresh_core
   \<and> snd (get_causal_mask
            (fst (AttentionCore_forward fresh_core keep_all qkv_len1 qkv_len1 qkv_len1))
            qkv_len2 qkv_len2) = [[True]]
   \<and> tril_ones (size_m2 qkv_len2) (size_m2 qkv_len2) = [[True, False], [True, True]]
   \<and> snd (attention_probs
            (fst (AttentionCore_forward fresh_core keep_all qkv_len1 qkv_len1 qkv_len1))
            qkv_len2 qkv_len2) = Inr [[[[1 / 2, 1 / 2], [1 / 2, 1 / 2]]]]"
  by (simp add: fresh_core_def keep_all_def qkv_len1_def qkv_len2_def attention_eval)

section \<open>Construction\<close>

lemma Column_init_not_dvd:
  "\<not> int ws dvd n_out \<Longrightarrow>
   ColumnParallelLinear_init ws rank lp n_in n_out = Inl ConfigurationError"
  by (simp add: ColumnParallelLinear_init_def dvd_eq_mod_eq_0)

lemma Row_init_not_dvd:
  "\<not> int ws dvd n_in \<Longrightarrow>
   RowParallelLinear_init ws rank lp n_in n_out = Inl ConfigurationError"
  by (simp add: RowParallelLinear_init_def dvd_eq_mod_eq_0)

lemma Column_init_ok:
  "0 < ws \<Longrightarrow> int ws dvd n_out \<Longrightarrow> 0 \<le> n_in \<Longrightarrow> 0 \<le> n_out \<Longrightarrow>
   ColumnParallelLinear_init ws rank lp n_in n_out =
     Inr \<lparr>cpl_weight = map (shard (nat n_out div ws) rank)
                          (master_weight (nat n_in) (nat n_out) lp),
          cpl_bias = shard (nat n_out div ws) rank (master_bias (nat n_out) lp)\<rparr>"
  by (simp add: ColumnParallelLinear_init_def dvd_eq_mod_eq_0 Let_def)

lemma Row_init_ok:
  "0 < ws \<Longrightarrow> int ws dvd n_in \<Longrightarrow> 0 \<le> n_in \<Longrightarrow> 0 \<le> n_out \<Longrightarrow>
   RowParallelLinear_init ws rank lp n_in n_out =
     Inr \<lparr>rpl_weight = shard (nat n_in div ws) rank
                          (master_weight (nat n_in) (nat n_out) lp),
          rpl_bias = master_bias (nat n_out) lp\<rparr>"
  by (simp add: RowParallelLinear_init_def dvd_eq_mod_eq_0 Let_def)

lemma SelfAttention_init_ok:
  assumes "0 < ws" "int ws dvd hdim" "0 \<le> hdim" "num_heads \<noteq> 0"
    and "0 \<le> ap" "ap \<le> 1" "0 \<le> dp" "dp \<le> 1"
  shows "SelfAttention_init ws rank ps hdim num_heads ap dp =
     Inr \<lparr>sa_attention_head_size = hdim div num_heads,
          sa_query = \<lparr>cpl_weight = map (shard (nat hdim div ws) rank)
                                     (master_weight (nat hdim) (nat hdim) (lp_query ps)),
                      cpl_bias = shard (nat hdim div ws) rank
                                     (master_bias (nat hdim) (lp_query ps))\<rparr>,
          sa_key = \<lparr>cpl_weight = map (shard (nat hdim div ws) rank)
                                     (master_weight (nat hdim) (nat hdim) (lp_key ps)),
                    cpl_bias = shard (nat hdim div ws) rank
                                     (master_bias (nat hdim) (lp_key ps))\<rparr>,
          sa_value = \<lparr>cpl_weight = map (shard (nat hdim div ws) rank)
                                     (master_weight (nat hdim) (nat hdim) (lp_value ps)),
                      cpl_bias = shard (nat hdim div ws) rank
                                     (master_bias (nat hdim) (lp_value ps))\<rparr>,
          sa_dense = \<lparr>rpl_weight = shard (nat hdim div ws) rank
                                     (master_weight (nat hdim) (nat hdim) (lp_dense ps)),
                      rpl_bias = master_bias (nat hdim) (lp_dense ps)\<rparr>,
          sa_dropout = \<lparr>drop_p = dp, training = True\<rparr>,
          core_attention = \<lparr>attention_head_size = hdim div num_heads,
                  attention_dropout = \<lparr>drop_p = ap, training = True\<rparr>,
                  causal_mask = None, where_const = - 10000\<rparr>\<rparr>"
  using assms
  by (simp add: SelfAttention_init_def Column_init_ok Row_init_ok Dropout_init_def
      AttentionCore_init_def Let_def)

text \<open>
  Claim C4, as the code has it. Nothing in the constructors compares \<open>dim\<close> with
  \<open>num_heads\<close>: the head size is the floor quotient, and a zero \<open>num_heads\<close> is a
  \<^verbatim>\<open>ZeroDivisionError\<close>. What fails at construction, with the error of the sharded
  linear layers, is a sharded dimension that the world size does not divide: \<open>dim\<close> in
  \<open>SelfAttention\<close>, hence in every \<open>GPTLayer\<close> and in every \<open>GPT\<close> with at least one
  block, and \<open>dim * ratio\<close> in \<open>FeedForward\<close>. With a world size that divides \<open>dim\<close> and
  dropout rates in \<open>[0, 1]\<close>, \<open>SelfAttention\<close> is constructed with head size
  \<open>dim div num_heads\<close>, whether \<open>num_heads\<close> divides \<open>dim\<close> or not.
\<close>

theorem construction_checks:
  assumes "num_heads \<noteq> 0" and "0 \<le> hdim"
  shows "(\<not> int ws dvd hdim \<longrightarrow>
            SelfAttention_init ws rank aps hdim num_heads ap dp = Inl ConfigurationError
          \<and> GPTLayer_init ws rank gelu lps hdim num_heads mlp_ratio ap dp
              = Inl ConfigurationError
          \<and> (0 < depth \<longrightarrow>
               GPT_init ws rank gelu ps depth hdim num_heads mlp_ratio ap dp
                 = Inl ConfigurationError))
       \<and> (\<not> int ws dvd hdim * default_arg 4 ratio \<longrightarrow>
            FeedForward_init ws rank gelu fps hdim ratio = Inl ConfigurationError)
       \<and> (0 < ws \<and> int ws dvd hdim \<and> 0 \<le> ap \<and> ap \<le> 1 \<and> 0 \<le> dp \<and> dp \<le> 1 \<longrightarrow>
            map_sum id sa_attention_head_size
              (SelfAttention_init ws rank aps hdim num_heads ap dp) = Inr (hdim div num_heads))"
proof (intro conjI impI)
  assume nd: "\<not> int ws dvd hdim"
  show "SelfAttention_init ws rank aps hdim num_heads ap dp = Inl ConfigurationError"
    using assms nd by (simp add: SelfAttention_init_def Column_init_not_dvd Let_def)
  show gl: "GPTLayer_init ws rank gelu l hdim num_heads mlp_ratio ap dp
      = Inl ConfigurationError" for l
    using assms nd
    by (simp add: GPTLayer_init_def LayerNorm_init_def SelfAttention_init_def
        Column_init_not_dvd Let_def)
  assume "0 < depth"
  then obtain n where "nat depth = Suc n"
    by (cases "nat depth") auto
  then have "[0..<nat depth] = 0 # [Suc 0..<Suc n]"
    by (simp add: upt_conv_Cons)
  then show "GPT_init ws rank gelu ps depth hdim num_heads mlp_ratio ap dp
      = Inl ConfigurationError"
    by (simp add: GPT_init_def gl)
next
  assume "\<not> int ws dvd hdim * default_arg 4 ratio"
  then show "FeedForward_init ws rank gelu fps hdim ratio = Inl ConfigurationError"
    by (simp add: FeedForward_init_def Column_init_not_dvd Let_def)
next
  assume "0 < ws \<and> int ws dvd hdim \<and> 0 \<le> ap \<and> ap \<le> 1 \<and> 0 \<le> dp \<and> dp \<le> 1"
  then show "map_sum id sa_attention_head_size
      (SelfAttention_init ws rank aps hdim num_heads ap dp) = Inr (hdim div num_heads)"
    using assms by (simp add: SelfAttention_init_ok)
qed

theorem construction_checks_witness:
  "(3::int) \<noteq> 0 \<and> (0::int) \<le> 6 \<and> \<not> int 4 dvd 6 \<and> (0::int) < 2
   \<and> SelfAttention_init 4 1 ex_attn_params 6 3 0 0 = Inl ConfigurationError
   \<and> GPTLayer_init 4 1 relu ex_layer_params 6 3 None 0 0 = Inl ConfigurationError
   \<and> GPT_init 4 1 relu ex_gpt_params 2 6 3 None 0 0 = Inl ConfigurationError
   \<and> \<not> int 4 dvd 6 * default_arg 4 (Some 1)
   \<and> FeedForward_init 4 1 relu ex_ffn_params 6 (Some 1) = Inl ConfigurationError
   \<and> int 2 dvd 6
   \<and> map_sum id sa_attention_head_size (SelfAttention_init 2 1 ex_attn_params 6 3 0 0)
       = Inr 2"
proof -
  have h: "(3::int) \<noteq> 0" "(0::int) \<le> 6"
    by simp_all
  show ?thesis
    using construction_checks [OF h, where ws = 4 and rank = 1 and aps = ex_attn_params
        and ap = 0 and dp = 0 and gelu = relu and lps = ex_layer_params and mlp_ratio = None
        and depth = 2 and ps = ex_gpt_params and ratio = "Some 1" and fps = ex_ffn_params]
      construction_checks [OF h, where ws = 2 and rank = 1 and aps = ex_attn_params
        and ap = 0 and dp = 0]
    by (simp add: default_arg_def)
qed

text \<open>
  Claim C4, as stated, fails: \<open>dim = 6\<close> is not divisible by \<open>num_heads = 4\<close>, and both
  \<open>SelfAttention\<close> and \<open>GPTLayer\<close> are constructed, with head size 1.
\<close>

theorem unchecked_num_heads_counterexample:
  "\<not> (4::int) dvd 6
   \<and> map_sum id sa_attention_head_size (SelfAttention_init 1 0 ex_attn_params 6 4 0 0)
       = Inr 1
   \<and> map_sum id (sa_attention_head_size \<circ> attn)
       (GPTLayer_init 1 0 relu ex_layer_params 6 4 None 0 0) = Inr 1"
  by (simp add: SelfAttention_init_ok GPTLayer_init_def LayerNorm_init_def
      FeedForward_init_def Column_init_ok Row_init_ok default_arg_def)

section \<open>The residual block\<close>

lemma ebind_assoc: "ebind (ebind m f) g = ebind m (\<lambda>x. ebind (f x) g)"
  by (cases m) simp_all

lemma mapM_cong:
  "(\<And>x. x \<in> set xs \<Longrightarrow> f x = g x) \<Longrightarrow> mapM f xs = mapM g xs"
  by (induction xs) simp_all

lemma mapM_map: "mapM f (map g xs) = mapM (\<lambda>x. f (g x)) xs"
  by (induction xs) simp_all

lemma length_SelfAttention_forward:
  "length (fst (SelfAttention_forward world ka ko xs)) = length world"
  by (simp add: SelfAttention_forward_def Let_def imap_def)

lemma zip_set_upd:
  assumes "length attns = length world"
  shows "map (\<lambda>x. mlp (case x of (self, a) \<Rightarrow> self\<lparr>attn := a\<rparr>)) (zip world attns) = map mlp world"
    and "map (\<lambda>x. norm2 (case x of (self, a) \<Rightarrow> self\<lparr>attn := a\<rparr>)) (zip world attns) = map norm2 world"
  using assms by (simp_all add: list_eq_iff_nth_eq)

lemma mapM_zip_map_fst:
  "mapM (\<lambda>(a, x). f (g a) x) (zip as xs) = mapM (\<lambda>(b, x). f b x) (zip (map g as) xs)"
proof (induction as arbitrary: xs)
  case Nil
  then show ?case by simp
next
  case (Cons a as)
  then show ?case by (cases xs) simp_all
qed

text \<open>
  Claim C5. For every input, the output of \<open>GPTLayer.forward\<close> is the pre-norm residual
  composition of the specification: \<open>x1 = x + SelfAttention(Normalize1(x))\<close>, then
  \<open>x2 = x1 + FeedForward(Normalize2(x1))\<close>, and \<open>x2\<close> is returned; an exception of any
  stage is the exception of the block. (The group has one input per rank.)
\<close>

theorem GPTLayer_forward_prenorm_residual:
  "snd (GPTLayer_forward world noise xs) =
     (if length xs = length world then TransformerBlock_spec world noise xs
      else Inl CommunicationError)"
proof (cases "length xs = length world")
  case False
  then show ?thesis by (simp add: GPTLayer_forward_def)
next
  case True
  show ?thesis
  proof (cases "mapM (\<lambda>(self, x). LayerNorm_forward (norm1 self) x) (zip world xs)")
    case (Inl e)
    then show ?thesis
      using True by (simp add: GPTLayer_forward_def TransformerBlock_spec_def residual_def)
  next
    case (Inr n1s)
    obtain attns r where sa:
      "SelfAttention_forward (map attn world) (attn_keep noise) (out_keep noise) n1s = (attns, r)"
      by (cases "SelfAttention_forward (map attn world) (attn_keep noise) (out_keep noise) n1s")
    have len: "length attns = length world"
      using length_SelfAttention_forward [of "map attn world" "attn_keep noise" "out_keep noise" n1s] sa
      by simp
    let ?w = "map (\<lambda>(self, a). self\<lparr>attn := a\<rparr>) (zip world attns)"
    have n2: "mapM (\<lambda>(self, x). LayerNorm_forward (norm2 self) x) (zip ?w ys)
        = mapM (\<lambda>(self, x). LayerNorm_forward (norm2 self) x) (zip world ys)" for ys
      using mapM_zip_map_fst [of LayerNorm_forward norm2 ?w ys]
        mapM_zip_map_fst [of LayerNorm_forward norm2 world ys]
      by (simp add: zip_set_upd [OF len] comp_def)
    show ?thesis
      using True Inr sa
      by (simp add: GPTLayer_forward_def TransformerBlock_spec_def residual_def [abs_def] n2
          zip_set_upd [OF len] comp_def ebind_assoc)
  qed
qed

section \<open>Tensors by their entries\<close>

lemma length_tab [simp]: "length (tab n f) = n"
  by (simp add: tab_def)

lemma nth_tab [simp]: "i < n \<Longrightarrow> tab n f ! i = f i"
  by (simp add: tab_def)

lemma tab_0 [simp]: "tab 0 f = []"
  by (simp add: tab_def)

lemma tab_Suc: "tab (Suc n) f = tab n f @ [f n]"
  by (simp add: tab_def)

lemma tab_eq_Nil [simp]: "tab n f = [] \<longleftrightarrow> n = 0"
  by (simp add: tab_def)

lemma tab_cong: "n = m \<Longrightarrow> (\<And>i. i < m \<Longrightarrow> f i = g i) \<Longrightarrow> tab n f = tab m g"
  by (simp add: tab_def)

lemma map_tab [simp]: "map g (tab n f) = tab n (\<lambda>i. g (f i))"
  by (simp add: tab_def)

lemma list_all_tab [simp]: "list_all P (tab n f) \<longleftrightarrow> (\<forall>i<n. P (f i))"
  by (auto simp: tab_def list_all_iff)

lemma tab_nth: "length xs = n \<Longrightarrow> tab n (\<lambda>i. xs ! i) = xs"
  by (auto simp: tab_def map_nth)

lemma zip_tab [simp]: "zip (tab n f) (tab n g) = tab n (\<lambda>i. (f i, g i))"
  by (simp add: list_eq_iff_nth_eq)

lemma hd_tab [simp]: "0 < n \<Longrightarrow> hd (tab n f) = f 0"
  by (simp add: hd_conv_nth)

lemma sum_list_tab: "sum_list (tab n f) = (\<Sum>i<n. f i)"
  by (simp add: tab_def interv_sum_list_conv_sum_set_nat atLeast0LessThan)

lemma mapM_Inr:
  "(\<And>x. x \<in> set xs \<Longrightarrow> f x = Inr (g x)) \<Longrightarrow> mapM f xs = Inr (map g xs)"
  by (induction xs) simp_all

lemma mapM_snoc:
  "mapM F (xs @ [x]) = ebind (mapM F xs) (\<lambda>ys. ebind (F x) (\<lambda>y. Inr (ys @ [y])))"
  by (induction xs) (auto simp: ebind_def split: sum.splits)

lemma mapM_tab:
  assumes "\<And>i. i < n \<Longrightarrow> F (f i) = Inr (g i)"
  shows "mapM F (tab n f) = Inr (tab n g)"
  using assms by (induction n) (simp_all add: tab_Suc mapM_snoc)

lemma broadcast_zip_same [simp]:
  "length xs = length ys \<Longrightarrow> broadcast_zip xs ys = Inr (zip xs ys)"
  by (simp add: broadcast_zip_def)

lemma shard_tab:
  "w * r + w \<le> n \<Longrightarrow> shard w r (tab n f) = tab w (\<lambda>c. f (w * r + c))"
  by (simp add: shard_def tab_def list_eq_iff_nth_eq)

lemma tab_append_block:
  "tab (h * d) (\<lambda>c. g (c div d) (c mod d)) @ tab d (g h)
     = tab (Suc h * d) (\<lambda>c. g (c div d) (c mod d))"
proof (rule nth_equalityI)
  show "length (tab (h * d) (\<lambda>c. g (c div d) (c mod d)) @ tab d (g h))
      = length (tab (Suc h * d) (\<lambda>c. g (c div d) (c mod d)))"
    by simp
next
  fix i
  assume "i < length (tab (h * d) (\<lambda>c. g (c div d) (c mod d)) @ tab d (g h))"
  then have i: "i < h * d + d"
    by simp
  show "(tab (h * d) (\<lambda>c. g (c div d) (c mod d)) @ tab d (g h)) ! i
      = tab (Suc h * d) (\<lambda>c. g (c div d) (c mod d)) ! i"
  proof (cases "i < h * d")
    case True
    then show ?thesis
      using i by (simp add: nth_append)
  next
    case False
    then obtain j where j: "i = h * d + j"
      using le_Suc_ex not_less by blast
    with i have "j < d"
      by simp
    then show ?thesis
      using i by (simp add: nth_append j)
  qed
qed

lemma concat_tab:
  "concat (tab h (\<lambda>hi. tab d (g hi))) = tab (h * d) (\<lambda>c. g (c div d) (c mod d))"
proof (induction h)
  case 0
  then show ?case by simp
next
  case (Suc h)
  then show ?case
    using tab_append_block [of h d g] by (simp add: tab_Suc)
qed

lemma is_mat_tab: "is_mat r c m \<Longrightarrow> m = tab r (\<lambda>i. tab c (\<lambda>j. m ! i ! j))"
  by (simp add: is_mat_def list_all_length list_eq_iff_nth_eq)

lemma is_tensor3_tab:
  "is_tensor3 b s c t \<Longrightarrow> t = tab b (\<lambda>bi. tab s (\<lambda>i. tab c (\<lambda>j. t ! bi ! i ! j)))"
  by (simp add: is_tensor3_def is_mat_def list_all_length list_eq_iff_nth_eq)

lemma is_tensor4_tab:
  "is_tensor4 b h s c t \<Longrightarrow>
   t = tab b (\<lambda>bi. tab h (\<lambda>hi. tab s (\<lambda>i. tab c (\<lambda>j. t ! bi ! hi ! i ! j))))"
  by (simp add: is_tensor4_def is_tensor3_def is_mat_def list_all_length list_eq_iff_nth_eq)

lemma is_mat_tab2 [simp]: "is_mat r c (tab r (\<lambda>i. tab c (f i)))"
  by (simp add: is_mat_def)

lemma is_tensor3_tab3 [simp]: "is_tensor3 b s c (tab b (\<lambda>bi. tab s (\<lambda>i. tab c (f bi i))))"
  by (simp add: is_tensor3_def)

lemma is_tensor4_tab4 [simp]:
  "is_tensor4 b h s c (tab b (\<lambda>bi. tab h (\<lambda>hi. tab s (\<lambda>i. tab c (f bi hi i)))))"
  by (simp add: is_tensor4_def)

lemma dot_tab: "dot (tab n f) (tab n g) = (\<Sum>t<n. f t * g t)"
  by (simp add: dot_def sum_list_tab)

lemma map_upt_tab: "map f [0..<n] = tab n f"
  by (simp add: tab_def)

lemma ncols_tab [simp]: "ncols (tab r (\<lambda>i. tab c (f i))) = (if r = 0 then 0 else c)"
  by (cases r) (simp_all add: ncols_def tab_def upt_conv_Cons del: upt_Suc)

lemma column_tab [simp]:
  "j < c \<Longrightarrow> column j (tab r (\<lambda>i. tab c (f i))) = tab r (\<lambda>i. f i j)"
  by (simp add: column_def)

lemma swap_axes_tab [simp]:
  "0 < r \<Longrightarrow> swap_axes (tab r (\<lambda>i. tab c (f i))) = tab c (\<lambda>j. tab r (\<lambda>i. f i j))"
  by (simp add: swap_axes_def map_upt_tab cong: tab_cong)

lemma matmul_tab:
  "0 < m \<Longrightarrow>
   matmul (tab n (\<lambda>i. tab m (f i))) (tab m (\<lambda>t. tab p (g t)))
     = Inr (tab n (\<lambda>i. tab p (\<lambda>j. \<Sum>t<m. f i t * g t j)))"
  by (simp add: matmul_def map_upt_tab dot_tab cong: tab_cong)

lemma tril_ones_tab: "tril_ones q_len k_len = tab q_len (\<lambda>i. tab k_len (\<lambda>j. j \<le> i))"
  by (simp add: tril_ones_def tab_def)

lemma softmax_tab: "softmax (tab n f) = tab n (\<lambda>j. exp (f j) / (\<Sum>t<n. exp (f t)))"
  by (simp add: softmax_def sum_list_tab)

lemma imap_tab [simp]: "imap g (tab n f) = tab n (\<lambda>i. g i (f i))"
  by (simp add: imap_def tab_def)

lemma dropout_mat_tab [simp]:
  "dropout_mat d keep (tab r (\<lambda>i. tab c (f i)))
     = tab r (\<lambda>i. tab c (\<lambda>j. dropout_elem d (keep i j) (f i j)))"
  by (simp add: dropout_mat_def)

lemma where_mat_tab:
  "where_mat (tab r (\<lambda>i. tab c (m i))) (tab r (\<lambda>i. tab c (f i))) k
     = Inr (tab r (\<lambda>i. tab c (\<lambda>j. if m i j then f i j else k)))"
  by (simp add: where_mat_def mapM_tab)

lemma list_ex_tab [simp]: "list_ex P (tab n f) \<longleftrightarrow> (\<exists>i<n. P (f i))"
  by (auto simp: tab_def list_ex_iff)

lemma matmul4_tab:
  "0 < m \<Longrightarrow>
   matmul4 (tab b (\<lambda>bi. tab h (\<lambda>hi. tab n (\<lambda>i. tab m (f bi hi i)))))
           (tab b (\<lambda>bi. tab h (\<lambda>hi. tab m (\<lambda>t. tab p (g bi hi t)))))
     = Inr (tab b (\<lambda>bi. tab h (\<lambda>hi. tab n (\<lambda>i. tab p (\<lambda>j. \<Sum>t<m. f bi hi i t * g bi hi t j)))))"
  by (simp add: matmul4_def mapM_tab matmul_tab)

lemma size_m2_tab:
  "0 < b \<Longrightarrow> 0 < h \<Longrightarrow> size_m2 (tab b (\<lambda>bi. tab h (\<lambda>hi. tab s (f bi hi)))) = s"
  by (cases b; cases h) (simp_all add: size_m2_def tab_def upt_conv_Cons del: upt_Suc)

lemma where4_tab:
  "where4 (tab r (\<lambda>i. tab c (m i))) (tab b (\<lambda>bi. tab h (\<lambda>hi. tab r (\<lambda>i. tab c (f bi hi i))))) k
     = Inr (tab b (\<lambda>bi. tab h (\<lambda>hi. tab r (\<lambda>i. tab c (\<lambda>j. if m i j then f bi hi i j else k)))))"
  by (simp add: where4_def mapM_tab where_mat_tab)

lemma dropout4_tab:
  "dropout4 d keep (tab b (\<lambda>bi. tab h (\<lambda>hi. tab r (\<lambda>i. tab c (f bi hi i)))))
     = tab b (\<lambda>bi. tab h (\<lambda>hi. tab r (\<lambda>i. tab c (\<lambda>j. dropout_elem d (keep bi hi i j) (f bi hi i j)))))"
  by (simp add: dropout4_def)

lemma merge_heads_tab:
  "0 < b \<Longrightarrow> 0 < h \<Longrightarrow> 0 < s \<Longrightarrow>
   merge_heads (tab b (\<lambda>bi. tab h (\<lambda>hi. tab s (\<lambda>i. tab d (f bi hi i)))))
     = Inr (tab b (\<lambda>bi. tab s (\<lambda>i. tab (h * d) (\<lambda>c. f bi (c div d) i (c mod d)))))"
  by (simp add: merge_heads_def concat_tab cong: tab_cong)

lemma attention_scores_tab:
  assumes "0 < d" "0 < sk" "0 < attention_head_size self"
  shows "attention_scores self
      (tab b (\<lambda>bi. tab h (\<lambda>hi. tab sq (\<lambda>i. tab d (Q bi hi i)))))
      (tab b (\<lambda>bi. tab h (\<lambda>hi. tab sk (\<lambda>i. tab d (K bi hi i)))))
    = Inr (tab b (\<lambda>bi. tab h (\<lambda>hi. tab sq (\<lambda>i. tab sk (\<lambda>j.
        (\<Sum>t<d. Q bi hi i t * K bi hi j t) / sqrt (real_of_int (attention_head_size self)))))))"
  using assms
  by (simp add: attention_scores_def matmul4_tab py_sqrt_def div_scalar_def)

section \<open>The attention kernel\<close>

lemma get_causal_mask_consistent:
  assumes "causal_mask self = None \<or> causal_mask self = Some (tril_ones sq sk)"
    and "size_m2 q = sq" "size_m2 k = sk"
  shows "get_causal_mask self q k = (self\<lparr>causal_mask := Some (tril_ones sq sk)\<rparr>, tril_ones sq sk)"
  using assms by (auto simp: get_causal_mask_def Let_def)

lemma tensor4_row:
  assumes "is_tensor4 b h s d q" "bi < b" "hi < h" "i < s"
  shows "q ! bi ! hi ! i = tab d (\<lambda>t. q ! bi ! hi ! i ! t)"
  using assms
  by (simp add: is_tensor4_def is_tensor3_def is_mat_def list_all_length list_eq_iff_nth_eq)

lemma attention_probs_spec:
  assumes q: "is_tensor4 b h sq d q" and k: "is_tensor4 b h sk d k"
    and pos: "0 < b" "0 < h" "0 < sk" "0 < d" "0 < attention_head_size self"
    and msk: "causal_mask self = None \<or> causal_mask self = Some (tril_ones sq sk)"
  shows "attention_probs self q k =
    (self\<lparr>causal_mask := Some (tril_ones sq sk)\<rparr>,
     Inr (tab b (\<lambda>bi. tab h (\<lambda>hi. tab sq (\<lambda>i. tab sk (\<lambda>j. spec_weight self sk q k bi hi i j))))))"
proof -
  define Q where "Q = (\<lambda>bi hi i t. q ! bi ! hi ! i ! t)"
  define K where "K = (\<lambda>bi hi i t. k ! bi ! hi ! i ! t)"
  define r where "r = sqrt (real_of_int (attention_head_size self))"
  have qt: "q = tab b (\<lambda>bi. tab h (\<lambda>hi. tab sq (\<lambda>i. tab d (Q bi hi i))))"
    unfolding Q_def by (rule is_tensor4_tab [OF q])
  have kt: "k = tab b (\<lambda>bi. tab h (\<lambda>hi. tab sk (\<lambda>i. tab d (K bi hi i))))"
    unfolding K_def by (rule is_tensor4_tab [OF k])
  have sc: "attention_scores self q k
      = Inr (tab b (\<lambda>bi. tab h (\<lambda>hi. tab sq (\<lambda>i. tab sk (\<lambda>j.
          (\<Sum>t<d. Q bi hi i t * K bi hi j t) / r)))))"
    unfolding r_def by (subst qt, subst kt) (rule attention_scores_tab [OF pos(4) pos(3) pos(5)])
  have sq: "size_m2 q = sq"
    by (subst qt) (rule size_m2_tab [OF pos(1) pos(2)])
  have sk: "size_m2 k = sk"
    by (subst kt) (rule size_m2_tab [OF pos(1) pos(2)])
  have gm: "get_causal_mask self q k
      = (self\<lparr>causal_mask := Some (tril_ones sq sk)\<rparr>, tril_ones sq sk)"
    by (rule get_causal_mask_consistent [OF msk sq sk])
  have score: "spec_score self q k bi hi i j = (\<Sum>t<d. Q bi hi i t * K bi hi j t) / r"
    if "bi < b" "hi < h" "i < sq" "j < sk" for bi hi i j
    unfolding spec_score_def r_def
    by (subst tensor4_row [OF q that(1) that(2) that(3)],
        subst tensor4_row [OF k that(1) that(2) that(4)])
       (simp add: dot_tab Q_def K_def)
  have masked: "(if j \<le> i then (\<Sum>t<d. Q bi hi i t * K bi hi j t) / r else where_const self)
      = spec_masked self q k bi hi i j"
    if "bi < b" "hi < h" "i < sq" "j < sk" for bi hi i j
    using score [OF that] by (simp add: spec_masked_def)
  show ?thesis
    by (simp add: attention_probs_def sc gm tril_ones_tab where4_tab softmax_tab masked
        spec_weight_def cong: tab_cong sum.cong)
qed

lemma AttentionCore_forward_spec:
  assumes q: "is_tensor4 b h sq d q" and k: "is_tensor4 b h sk d k"
    and v: "is_tensor4 b h sk dv v"
    and pos: "0 < b" "0 < h" "0 < sk" "0 < d" "0 < attention_head_size self"
    and sq: "0 < sq"
    and msk: "causal_mask self = None \<or> causal_mask self = Some (tril_ones sq sk)"
  shows "AttentionCore_forward self keep q k v =
    (self\<lparr>causal_mask := Some (tril_ones sq sk)\<rparr>,
     Inr (attention_spec self keep b h sq sk dv q k v))"
proof -
  define V where "V = (\<lambda>bi hi i t. v ! bi ! hi ! i ! t)"
  have vt: "v = tab b (\<lambda>bi. tab h (\<lambda>hi. tab sk (\<lambda>i. tab dv (V bi hi i))))"
    unfolding V_def by (rule is_tensor4_tab [OF v])
  have mm: "matmul4 (tab b (\<lambda>bi. tab h (\<lambda>hi. tab sq (\<lambda>i. tab sk (P bi hi i))))) v
      = Inr (tab b (\<lambda>bi. tab h (\<lambda>hi. tab sq (\<lambda>i. tab dv (\<lambda>j. \<Sum>t<sk. P bi hi i t * V bi hi t j)))))"
    for P
    by (subst vt) (rule matmul4_tab [OF pos(3)])
  show ?thesis
    by (simp add: AttentionCore_forward_def attention_probs_spec [OF q k pos msk]
        dropout4_tab mm merge_heads_tab [OF pos(1) pos(2) sq] attention_spec_def V_def)
qed




section \<open>The masking constant\<close>











section \<open>Sharded linear layers and FeedForward\<close>

lemma master_weight_tab: "master_weight n_in n_out lp = tab n_in (\<lambda>t. tab n_out (lp_weight lp t))"
  by (simp add: master_weight_def tab_def)

lemma master_bias_tab: "master_bias n_out lp = tab n_out (lp_bias lp)"
  by (simp add: master_bias_def tab_def)

lemma shard_bound: "rank < ws \<Longrightarrow> w * rank + w \<le> ws * w" for w :: nat
proof -
  assume "rank < ws"
  then have "Suc rank \<le> ws"
    by simp
  then have "w * Suc rank \<le> w * ws"
    by (rule mult_le_mono2)
  then show ?thesis
    by (simp add: mult.commute)
qed

lemma vecmat_tab:
  "vecmat n_out (tab n_in (\<lambda>t. tab n_out (g t))) (tab n_in x)
     = tab n_out (\<lambda>c. \<Sum>t<n_in. x t * g t c)"
  by (simp add: vecmat_def map_upt_tab dot_tab cong: tab_cong)

lemma linear_nobias_tab:
  "linear_nobias n_out (tab n_in (\<lambda>t. tab n_out (g t)))
       (tab b (\<lambda>bi. tab s (\<lambda>i. tab n_in (x bi i))))
     = Inr (tab b (\<lambda>bi. tab s (\<lambda>i. tab n_out (\<lambda>c. \<Sum>t<n_in. x bi i t * g t c))))"
  by (simp add: linear_nobias_def vecmat_tab)

lemma add_bias_tab:
  "add_bias (tab n bias) (tab b (\<lambda>bi. tab s (\<lambda>i. tab n (f bi i))))
     = tab b (\<lambda>bi. tab s (\<lambda>i. tab n (\<lambda>c. f bi i c + bias c)))"
  by (simp add: add_bias_def)

lemma ColumnParallelLinear_forward_tab:
  "ColumnParallelLinear_forward
       \<lparr>cpl_weight = tab n_in (\<lambda>t. tab w (g t)), cpl_bias = tab w bias\<rparr>
       (tab b (\<lambda>bi. tab s (\<lambda>i. tab n_in (x bi i))))
     = Inr (tab b (\<lambda>bi. tab s (\<lambda>i. tab w (\<lambda>c. (\<Sum>t<n_in. x bi i t * g t c) + bias c))))"
  by (simp add: ColumnParallelLinear_forward_def linear_nobias_tab add_bias_tab)

lemma column_shard_tab:
  assumes "rank < ws"
  shows "map (shard w rank) (master_weight n_in (ws * w) lp)
           = tab n_in (\<lambda>t. tab w (\<lambda>c. lp_weight lp t (w * rank + c)))"
    and "shard w rank (master_bias (ws * w) lp) = tab w (\<lambda>c. lp_bias lp (w * rank + c))"
  using shard_bound [OF assms, of w]
  by (simp_all add: master_weight_tab master_bias_tab shard_tab)

lemma row_shard_tab:
  assumes "rank < ws"
  shows "shard w rank (master_weight (ws * w) n_out lp)
           = tab w (\<lambda>t. tab n_out (lp_weight lp (w * rank + t)))"
  using shard_bound [OF assms, of w]
  by (simp add: master_weight_tab shard_tab)

text \<open>The column-sharded projection of rank r is the slice of the dense projection.\<close>

lemma Column_forward_projected:
  assumes "rank < ws" and x: "is_tensor3 b s n_in x"
  shows "ColumnParallelLinear_forward
       \<lparr>cpl_weight = map (shard w rank) (master_weight n_in (ws * w) lp),
        cpl_bias = shard w rank (master_bias (ws * w) lp)\<rparr> x
     = Inr (tab b (\<lambda>bi. tab s (\<lambda>i. tab w (\<lambda>c. projected lp n_in x bi i (w * rank + c)))))"
  by (subst is_tensor3_tab [OF x])
     (simp add: column_shard_tab [OF assms(1)] ColumnParallelLinear_forward_tab projected_def)

lemma chunks_tab:
  "chunks n d (tab (n * d) f) = tab n (\<lambda>hh. tab d (\<lambda>t. f (d * hh + t)))"
proof -
  have "shard d hh (tab (n * d) f) = tab d (\<lambda>t. f (d * hh + t))" if "hh < n" for hh
    using shard_bound [OF that, of d] by (simp add: shard_tab)
  then show ?thesis
    by (simp add: chunks_def map_upt_tab cong: tab_cong)
qed

lemma view_heads_tab:
  "view_heads (int n) (int d) (tab b (\<lambda>bi. tab s (\<lambda>i. tab (n * d) (f bi i))))
     = Inr (tab b (\<lambda>bi. tab s (\<lambda>i. tab n (\<lambda>hh. tab d (\<lambda>t. f bi i (d * hh + t))))))"
  by (simp add: view_heads_def chunks_tab flip: of_nat_mult)

lemma permute_0213_tab:
  "0 < s \<Longrightarrow>
   permute_0213 (tab b (\<lambda>bi. tab s (\<lambda>i. tab n (\<lambda>hh. tab d (f bi i hh)))))
     = tab b (\<lambda>bi. tab n (\<lambda>hh. tab s (\<lambda>i. tab d (f bi i hh))))"
  by (simp add: permute_0213_def)

lemma tab_shape3:
  "shape3 (tab b (\<lambda>bi. tab s (\<lambda>i. tab n (f bi i)))) = tab b (\<lambda>bi. tab s (\<lambda>i. n))"
  by (simp add: shape3_def)

lemma add3_tab:
  "add3 (tab b (\<lambda>bi. tab s (\<lambda>i. tab n (f bi i)))) (tab b (\<lambda>bi. tab s (\<lambda>i. tab n (g bi i))))
     = tab b (\<lambda>bi. tab s (\<lambda>i. tab n (\<lambda>c. f bi i c + g bi i c)))"
  by (simp add: add3_def)

lemma tab_Suc_Cons: "tab (Suc n) f = f 0 # tab n (\<lambda>i. f (Suc i))"
  by (simp add: tab_def upt_conv_Cons map_Suc_upt [symmetric] del: upt_Suc)

lemma foldl_add3_tab:
  "foldl add3 (tab b (\<lambda>bi. tab s (\<lambda>i. tab n (a bi i))))
       (tab m (\<lambda>r. tab b (\<lambda>bi. tab s (\<lambda>i. tab n (p r bi i)))))
     = tab b (\<lambda>bi. tab s (\<lambda>i. tab n (\<lambda>c. a bi i c + (\<Sum>r<m. p r bi i c))))"
  by (induction m) (simp_all add: tab_Suc add3_tab add.assoc)

lemma all_reduce_sum_tab:
  "0 < ws \<Longrightarrow>
   all_reduce_sum (tab ws (\<lambda>r. tab b (\<lambda>bi. tab s (\<lambda>i. tab n (p r bi i)))))
     = Inr (tab b (\<lambda>bi. tab s (\<lambda>i. tab n (\<lambda>c. \<Sum>r<ws. p r bi i c))))"
proof -
  assume "0 < ws"
  then obtain m where m: "ws = Suc m"
    by (cases ws) auto
  have "(\<Sum>r<Suc m. p r bi i c) = p 0 bi i c + (\<Sum>r<m. p (Suc r) bi i c)" for bi i c
    by (simp add: sum.lessThan_Suc_shift del: sum.lessThan_Suc)
  then show ?thesis
    by (simp add: m all_reduce_sum_def tab_Suc_Cons tab_shape3 foldl_add3_tab del: sum.lessThan_Suc)
qed

lemma dvd_nat_shard:
  assumes "0 < ws" "int ws dvd n" "0 \<le> n"
  shows "nat n = ws * (nat n div ws)"
proof -
  have "ws dvd nat n"
    using assms by (simp add: int_dvd_int_iff [symmetric])
  then show ?thesis
    by simp
qed

lemma sum_shards:
  fixes f :: "nat \<Rightarrow> real"
  shows "(\<Sum>r<ws. \<Sum>c<w. f (w * r + c)) = (\<Sum>c<ws * w. f c)"
proof -
  have "(\<Sum>c<w. f (w * r + c)) = sum f {r * w..<r * w + w}" for r
    using sum.shift_bounds_nat_ivl [of f 0 "r * w" w]
    by (simp add: atLeast0LessThan add.commute mult.commute)
  then show ?thesis
    using sum.nat_group [of f w ws] by simp
qed

lemma replicate_tab: "replicate n x = tab n (\<lambda>i. x)"
  by (simp add: tab_def map_replicate_const)

lemma FeedForward_init_ok:
  assumes "0 < ws" "int ws dvd hidden * default_arg 4 ratio" "0 \<le> hidden"
    and "0 \<le> default_arg 4 ratio"
  shows "FeedForward_init ws rank gelu ps hidden ratio =
    Inr \<lparr>hidden_size = hidden, ffn_hidden_size = hidden * default_arg 4 ratio,
         dense_h_to_4h =
           \<lparr>cpl_weight = map (shard (nat (hidden * default_arg 4 ratio) div ws) rank)
              (master_weight (nat hidden) (nat (hidden * default_arg 4 ratio)) (lp_h_to_4h ps)),
            cpl_bias = shard (nat (hidden * default_arg 4 ratio) div ws) rank
              (master_bias (nat (hidden * default_arg 4 ratio)) (lp_h_to_4h ps))\<rparr>,
         dense_4h_to_h =
           \<lparr>rpl_weight = shard (nat (hidden * default_arg 4 ratio) div ws) rank
              (master_weight (nat (hidden * default_arg 4 ratio)) (nat hidden) (lp_4h_to_h ps)),
            rpl_bias = master_bias (nat hidden) (lp_4h_to_h ps)\<rparr>,
         activation_func = gelu\<rparr>"
  using assms
  by (simp add: FeedForward_init_def Column_init_ok Row_init_ok Let_def)

lemma FeedForward_intermediate_tab:
  assumes "rank < ws" and x: "is_tensor3 b s n_in x"
  shows "FeedForward_intermediate
      \<lparr>hidden_size = hs, ffn_hidden_size = fs,
       dense_h_to_4h = \<lparr>cpl_weight = map (shard w rank) (master_weight n_in (ws * w) lp),
                         cpl_bias = shard w rank (master_bias (ws * w) lp)\<rparr>,
       dense_4h_to_h = d2, activation_func = gelu\<rparr> x
    = Inr (tab b (\<lambda>bi. tab s (\<lambda>i. tab w (\<lambda>c. gelu (projected lp n_in x bi i (w * rank + c))))))"
  by (simp add: FeedForward_intermediate_def Column_forward_projected [OF assms])

lemma RowParallelLinear_forward_tab:
  assumes "0 < ws"
  shows "RowParallelLinear_forward
      (tab ws (\<lambda>r. \<lparr>rpl_weight = shard w r (master_weight (ws * w) n_out lp),
                     rpl_bias = master_bias n_out lp\<rparr>))
      (tab ws (\<lambda>r. tab b (\<lambda>bi. tab s (\<lambda>i. tab w (y r bi i)))))
    = Inr (tab ws (\<lambda>r. tab b (\<lambda>bi. tab s (\<lambda>i. tab n_out (\<lambda>c.
        (\<Sum>r<ws. \<Sum>t<w. y r bi i t * lp_weight lp (w * r + t) c) + lp_bias lp c)))))"
proof -
  have part: "mapM (\<lambda>(self, x). linear_nobias (length (rpl_bias self)) (rpl_weight self) x)
      (tab ws (\<lambda>r. (\<lparr>rpl_weight = shard w r (master_weight (ws * w) n_out lp),
                      rpl_bias = tab n_out (lp_bias lp)\<rparr>,
                     tab b (\<lambda>bi. tab s (\<lambda>i. tab w (y r bi i))))))
    = Inr (tab ws (\<lambda>r. tab b (\<lambda>bi. tab s (\<lambda>i. tab n_out (\<lambda>c.
        \<Sum>t<w. y r bi i t * lp_weight lp (w * r + t) c)))))"
    by (rule mapM_tab) (simp add: row_shard_tab linear_nobias_tab)
  show ?thesis
    by (simp add: RowParallelLinear_forward_def part all_reduce_sum_tab [OF assms]
        master_bias_tab add_bias_tab)
qed

lemma nat_eq_imp_dvd:
  assumes "0 \<le> n" "nat n = ws * w"
  shows "int ws dvd n"
proof -
  have "n = int ws * int w"
    using assms by (metis nat_0_le of_nat_mult)
  then show ?thesis
    by simp
qed

lemma FeedForward_init_shards:
  assumes "0 < ws" "0 \<le> hidden" "0 \<le> default_arg 4 ratio"
    and "nat (hidden * default_arg 4 ratio) = ws * w"
  shows "FeedForward_init ws rank gelu ps hidden ratio =
    Inr \<lparr>hidden_size = hidden, ffn_hidden_size = hidden * default_arg 4 ratio,
         dense_h_to_4h =
           \<lparr>cpl_weight = map (shard w rank)
              (master_weight (nat hidden) (ws * w) (lp_h_to_4h ps)),
            cpl_bias = shard w rank (master_bias (ws * w) (lp_h_to_4h ps))\<rparr>,
         dense_4h_to_h =
           \<lparr>rpl_weight = shard w rank
              (master_weight (ws * w) (nat hidden) (lp_4h_to_h ps)),
            rpl_bias = master_bias (nat hidden) (lp_4h_to_h ps)\<rparr>,
         activation_func = gelu\<rparr>"
proof -
  have "0 \<le> hidden * default_arg 4 ratio"
    using assms(2,3) by simp
  then have "int ws dvd hidden * default_arg 4 ratio"
    using assms(4) by (rule nat_eq_imp_dvd)
  then show ?thesis
    using FeedForward_init_ok [OF assms(1) _ assms(2,3), of rank gelu ps] assms(1)
    by (simp add: assms(4))
qed

lemma mapM_upt:
  assumes "\<And>r. r < n \<Longrightarrow> F r = Inr (g r)"
  shows "mapM F [0..<n] = Inr (tab n g)"
  using mapM_tab [of n F "\<lambda>r. r" g] assms by (simp add: tab_def)

lemma FeedForward_world_shards:
  assumes "0 < ws" "0 \<le> hidden" "0 \<le> default_arg 4 ratio"
    and "nat (hidden * default_arg 4 ratio) = ws * w"
  shows "FeedForward_world ws gelu ps hidden ratio =
    Inr (tab ws (\<lambda>rank.
      \<lparr>hidden_size = hidden, ffn_hidden_size = hidden * default_arg 4 ratio,
         dense_h_to_4h =
           \<lparr>cpl_weight = map (shard w rank)
              (master_weight (nat hidden) (ws * w) (lp_h_to_4h ps)),
            cpl_bias = shard w rank (master_bias (ws * w) (lp_h_to_4h ps))\<rparr>,
         dense_4h_to_h =
           \<lparr>rpl_weight = shard w rank
              (master_weight (ws * w) (nat hidden) (lp_4h_to_h ps)),
            rpl_bias = master_bias (nat hidden) (lp_4h_to_h ps)\<rparr>,
         activation_func = gelu\<rparr>))"
  unfolding FeedForward_world_def
  by (rule mapM_upt) (rule FeedForward_init_shards [OF assms])

lemma FeedForward_forward_shards:
  assumes "0 < ws" "0 \<le> hidden" "0 \<le> default_arg 4 ratio"
    and "nat (hidden * default_arg 4 ratio) = ws * w"
    and x: "is_tensor3 b s (nat hidden) x"
  shows "ebind (FeedForward_world ws gelu ps hidden ratio)
           (\<lambda>world. FeedForward_forward world (replicate ws x))
    = Inr (replicate ws (tab b (\<lambda>bi. tab s (\<lambda>i. tab (nat hidden) (\<lambda>c.
        (\<Sum>r<ws. \<Sum>t<w. gelu (projected (lp_h_to_4h ps) (nat hidden) x bi i (w * r + t))
                         * lp_weight (lp_4h_to_h ps) (w * r + t) c)
        + lp_bias (lp_4h_to_h ps) c)))))"
proof -
  have inter: "mapM (\<lambda>(self, x). FeedForward_intermediate self x)
      (tab ws (\<lambda>rank.
        (\<lparr>hidden_size = hidden, ffn_hidden_size = hidden * default_arg 4 ratio,
           dense_h_to_4h =
             \<lparr>cpl_weight = map (shard w rank)
                (master_weight (nat hidden) (ws * w) (lp_h_to_4h ps)),
              cpl_bias = shard w rank (master_bias (ws * w) (lp_h_to_4h ps))\<rparr>,
           dense_4h_to_h =
             \<lparr>rpl_weight = shard w rank
                (master_weight (ws * w) (nat hidden) (lp_4h_to_h ps)),
              rpl_bias = master_bias (nat hidden) (lp_4h_to_h ps)\<rparr>,
           activation_func = gelu\<rparr>, x)))
    = Inr (tab ws (\<lambda>r. tab b (\<lambda>bi. tab s (\<lambda>i. tab w (\<lambda>c.
        gelu (projected (lp_h_to_4h ps) (nat hidden) x bi i (w * r + c)))))))"
    by (rule mapM_tab) (simp add: FeedForward_intermediate_tab [OF _ x])
  show ?thesis
    by (simp add: FeedForward_world_shards [OF assms(1-4)] FeedForward_forward_def
        replicate_tab inter RowParallelLinear_forward_tab [OF assms(1)])
qed

lemma FeedForward_forward_dense:
  assumes "0 < ws" "0 \<le> hidden" "0 \<le> default_arg 4 ratio"
    and "int ws dvd hidden * default_arg 4 ratio"
    and x: "is_tensor3 b s (nat hidden) x"
  shows "ebind (FeedForward_world ws gelu ps hidden ratio)
           (\<lambda>world. FeedForward_forward world (replicate ws x))
    = Inr (replicate ws (tab b (\<lambda>bi. tab s (\<lambda>i. tab (nat hidden)
        (FeedForward_dense gelu ps (nat hidden) (nat (hidden * default_arg 4 ratio)) x bi i)))))"
proof -
  have "0 \<le> hidden * default_arg 4 ratio"
    using assms(2,3) by simp
  then have F: "nat (hidden * default_arg 4 ratio)
      = ws * (nat (hidden * default_arg 4 ratio) div ws)"
    using dvd_nat_shard [OF assms(1) assms(4)] by simp
  show ?thesis
    unfolding FeedForward_forward_shards [OF assms(1-3) F x] FeedForward_dense_def
    by (subst (3) F)
       (simp add: sum_shards [of _ _ ws, symmetric] cong: tab_cong)
qed

text \<open>
  Claim C8. \<open>FeedForward\<close> expands to \<open>hidden * ratio\<close>, with \<open>ratio = 4\<close> when the
  argument is left out. On rank \<open>rank\<close> of \<open>ws\<close> the intermediate is not gathered: it has
  width \<open>w = hidden * ratio div ws\<close> and is the activation function applied, entry by
  entry, to the columns \<open>[w * rank, w * (rank + 1))\<close> of the expansion. The row-sharded
  projection consumes these slices as they are: the output of every rank, of shape
  \<open>[b, s, hidden]\<close>, is the sum over the ranks of the products of the local slices
  with the local rows of the weight, plus the bias once.
\<close>

theorem FeedForward_sharded_pipeline:
  assumes "0 < ws" and "rank < ws" and "0 \<le> hidden" and "0 \<le> default_arg 4 ratio"
    and "int ws dvd hidden * default_arg 4 ratio"
    and "is_tensor3 b s (nat hidden) x"
    and "w = nat (hidden * default_arg 4 ratio) div ws"
  shows "default_arg 4 None = (4::int)
    \<and> map_sum id ffn_hidden_size (FeedForward_init ws rank gelu ps hidden ratio)
        = Inr (hidden * default_arg 4 ratio)
    \<and> ebind (FeedForward_init ws rank gelu ps hidden ratio)
          (\<lambda>self. FeedForward_intermediate self x)
        = Inr (tab b (\<lambda>bi. tab s (\<lambda>i. tab w (\<lambda>c.
            gelu (projected (lp_h_to_4h ps) (nat hidden) x bi i (w * rank + c))))))
    \<and> ebind (FeedForward_world ws gelu ps hidden ratio)
          (\<lambda>world. FeedForward_forward world (replicate ws x))
        = Inr (replicate ws (tab b (\<lambda>bi. tab s (\<lambda>i. tab (nat hidden) (\<lambda>c.
            (\<Sum>r<ws. \<Sum>t<w. gelu (projected (lp_h_to_4h ps) (nat hidden) x bi i (w * r + t))
                             * lp_weight (lp_4h_to_h ps) (w * r + t) c)
            + lp_bias (lp_4h_to_h ps) c)))))"
proof -
  have "0 \<le> hidden * default_arg 4 ratio"
    using assms(3,4) by simp
  then have F: "nat (hidden * default_arg 4 ratio) = ws * w"
    using dvd_nat_shard [OF assms(1) assms(5)] assms(7) by simp
  note init = FeedForward_init_shards [OF assms(1) assms(3) assms(4) F]
  have "ebind (FeedForward_init ws rank gelu ps hidden ratio)
          (\<lambda>self. FeedForward_intermediate self x)
        = Inr (tab b (\<lambda>bi. tab s (\<lambda>i. tab w (\<lambda>c.
            gelu (projected (lp_h_to_4h ps) (nat hidden) x bi i (w * rank + c))))))"
    by (simp add: init FeedForward_intermediate_tab [OF assms(2) assms(6)])
  then show ?thesis
    using FeedForward_forward_shards [OF assms(1) assms(3) assms(4) F assms(6), of gelu ps]
    by (simp add: init default_arg_def)
qed

theorem FeedForward_sharded_pipeline_witness:
  "(0::nat) < 2 \<and> (1::nat) < 2 \<and> (0::int) \<le> 2 \<and> (0::int) \<le> default_arg 4 None
   \<and> int 2 dvd 2 * default_arg 4 None \<and> is_tensor3 1 2 (nat 2) ex_x
   \<and> map_sum id ffn_hidden_size (FeedForward_init 2 1 relu ex_ffn_params 2 None) = Inr 8
   \<and> ebind (FeedForward_init 2 1 relu ex_ffn_params 2 None)
          (\<lambda>self. FeedForward_intermediate self ex_x)
        = Inr (tab 1 (\<lambda>bi. tab 2 (\<lambda>i. tab 4 (\<lambda>c.
            relu (projected (lp_h_to_4h ex_ffn_params) (nat 2) ex_x bi i (4 * 1 + c))))))"
proof -
  have h: "(0::nat) < 2" "(1::nat) < 2" "(0::int) \<le> 2" "(0::int) \<le> default_arg 4 None"
    "int 2 dvd 2 * default_arg 4 None" "is_tensor3 1 2 (nat 2) ex_x"
    "(4::nat) = nat (2 * default_arg 4 None) div 2"
    by (simp_all add: default_arg_def ex_x_def is_tensor3_def is_mat_def)
  show ?thesis
    using h(1-6) FeedForward_sharded_pipeline [OF h, of relu ex_ffn_params]
    by (simp add: default_arg_def)
qed

section \<open>SelfAttention on a group of ranks\<close>

lemma SelfAttention_init_shards:
  assumes "0 < ws" "0 \<le> hdim" "num_heads \<noteq> 0"
    and "0 \<le> ap" "ap \<le> 1" "0 \<le> dp" "dp \<le> 1"
    and "nat hdim = ws * w"
  shows "SelfAttention_init ws rank ps hdim num_heads ap dp =
     Inr \<lparr>sa_attention_head_size = hdim div num_heads,
          sa_query = \<lparr>cpl_weight = map (shard w rank)
                                     (master_weight (nat hdim) (ws * w) (lp_query ps)),
                      cpl_bias = shard w rank (master_bias (ws * w) (lp_query ps))\<rparr>,
          sa_key = \<lparr>cpl_weight = map (shard w rank)
                                     (master_weight (nat hdim) (ws * w) (lp_key ps)),
                    cpl_bias = shard w rank (master_bias (ws * w) (lp_key ps))\<rparr>,
          sa_value = \<lparr>cpl_weight = map (shard w rank)
                                     (master_weight (nat hdim) (ws * w) (lp_value ps)),
                      cpl_bias = shard w rank (master_bias (ws * w) (lp_value ps))\<rparr>,
          sa_dense = \<lparr>rpl_weight = shard w rank
                                     (master_weight (ws * w) (nat hdim) (lp_dense ps)),
                      rpl_bias = master_bias (nat hdim) (lp_dense ps)\<rparr>,
          sa_dropout = \<lparr>drop_p = dp, training = True\<rparr>,
          core_attention = \<lparr>attention_head_size = hdim div num_heads,
                  attention_dropout = \<lparr>drop_p = ap, training = True\<rparr>,
                  causal_mask = None, where_const = - 10000\<rparr>\<rparr>"
proof -
  have "int ws dvd hdim"
    using assms(2) assms(8) by (rule nat_eq_imp_dvd)
  then show ?thesis
    using SelfAttention_init_ok [OF assms(1) _ assms(2-7), of rank ps] assms(1)
    by (simp add: assms(8))
qed

lemma length_shard_bias:
  "rank < ws \<Longrightarrow> length (shard w rank (master_bias (ws * w) lp)) = w"
  by (simp add: column_shard_tab)

lemma SelfAttention_qkv_shards:
  assumes r: "rank < ws" and x: "is_tensor3 b s n_in x" and s: "0 < s"
    and a: "0 < A" and w: "w = n * A"
  shows "SelfAttention_qkv
      \<lparr>sa_attention_head_size = int A,
       sa_query = \<lparr>cpl_weight = map (shard w rank) (master_weight n_in (ws * w) lq),
                   cpl_bias = shard w rank (master_bias (ws * w) lq)\<rparr>,
       sa_key = \<lparr>cpl_weight = map (shard w rank) (master_weight n_in (ws * w) lk),
                 cpl_bias = shard w rank (master_bias (ws * w) lk)\<rparr>,
       sa_value = \<lparr>cpl_weight = map (shard w rank) (master_weight n_in (ws * w) lv),
                   cpl_bias = shard w rank (master_bias (ws * w) lv)\<rparr>,
       sa_dense = dn, sa_dropout = dr, core_attention = core\<rparr> x
    = Inr (local_heads lq n_in w rank b n s A x,
           local_heads lk n_in w rank b n s A x,
           local_heads lv n_in w rank b n s A x)"
proof -
  have n: "int w div int A = int n"
    using a by (simp add: w flip: of_nat_mult zdiv_int)
  have view: "view_heads (int n) (int A)
      (tab b (\<lambda>bi. tab s (\<lambda>i. tab w (\<lambda>c. projected lp n_in x bi i (w * rank + c)))))
    = Inr (tab b (\<lambda>bi. tab s (\<lambda>i. tab n (\<lambda>hh. tab A (\<lambda>t.
        projected lp n_in x bi i (w * rank + (A * hh + t)))))))" for lp
    unfolding w by (rule view_heads_tab)
  show ?thesis
    using a
    by (simp add: SelfAttention_qkv_def Column_forward_projected [OF r x]
        length_shard_bias [OF r] n view permute_0213_tab [OF s] local_heads_def Let_def)
qed

lemma local_heads_row:
  assumes "bi < b" "hh < n" "i < s"
  shows "local_heads lp n_in w rank b n s A x ! bi ! hh ! i
      = tab A (\<lambda>t. projected lp n_in x bi i (w * rank + (A * hh + t)))"
  using assms by (simp add: local_heads_def)

lemma is_tensor4_local_heads [simp]: "is_tensor4 b n s A (local_heads lp n_in w rank b n s A x)"
  by (simp add: local_heads_def)

lemma head_index: "n * A * rank + (A * hh + t) = A * (n * rank + hh) + t" for n :: nat
  by (simp add: algebra_simps)

lemma local_score:
  assumes "bi < b" "hh < n" "i < s" "j < s"
    and "attention_head_size core = int A" "w = n * A"
  shows "spec_score core (local_heads (lp_query ps) n_in w rank b n s A x)
       (local_heads (lp_key ps) n_in w rank b n s A x) bi hh i j
     = dense_score ps A n_in x bi (n * rank + hh) i j"
  by (simp add: spec_score_def dense_score_def assms(5)
      local_heads_row [OF assms(1,2,3)] local_heads_row [OF assms(1,2,4)] dot_tab
      assms(6) head_index)

lemma local_masked:
  assumes "bi < b" "hh < n" "i < s"
    and "attention_head_size core = int A" "w = n * A" "where_const core = - 10000"
  shows "spec_masked core (local_heads (lp_query ps) n_in w rank b n s A x)
       (local_heads (lp_key ps) n_in w rank b n s A x) bi hh i j
     = dense_masked ps A n_in x bi (n * rank + hh) i j"
proof (cases "j \<le> i")
  case True
  then have "j < s"
    using assms(3) by simp
  then show ?thesis
    using True local_score [OF assms(1,2,3) _ assms(4,5), of j ps n_in rank x]
    by (simp add: spec_masked_def dense_masked_def)
next
  case False
  then show ?thesis
    by (simp add: spec_masked_def dense_masked_def assms(6))
qed

lemma local_weight:
  assumes "bi < b" "hh < n" "i < s"
    and "attention_head_size core = int A" "w = n * A" "where_const core = - 10000"
  shows "spec_weight core s (local_heads (lp_query ps) n_in w rank b n s A x)
       (local_heads (lp_key ps) n_in w rank b n s A x) bi hh i j
     = dense_weight ps A n_in s x bi (n * rank + hh) i j"
  by (simp add: spec_weight_def dense_weight_def local_masked [OF assms])

lemma div_shard:
  fixes A c n rank :: nat
  assumes "0 < A"
  shows "(n * A * rank + c) div A = n * rank + c div A"
proof -
  have "n * A * rank + c = c + (n * rank) * A"
    by (simp add: algebra_simps)
  moreover have "(c + (n * rank) * A) div A = n * rank + c div A"
    using assms by (intro div_mult_self1) simp
  ultimately show ?thesis
    by (simp only:)
qed

lemma div_less_heads:
  fixes A c n :: nat
  shows "c < n * A \<Longrightarrow> c div A < n"
  by (simp add: less_mult_imp_div_less)

lemma local_context:
  assumes "0 < A" "rank < ws"
    and "0 < b" "0 < s" "0 < n"
    and core: "attention_head_size core = int A" "where_const core = - 10000"
      "causal_mask core = None \<or> causal_mask core = Some (tril_ones s s)"
    and keep: "\<And>bi hh. hh < n \<Longrightarrow> keep bi hh = keep_a bi (n * rank + hh)"
  shows "AttentionCore_forward core keep
      (local_heads (lp_query ps) n_in (n * A) rank b n s A x)
      (local_heads (lp_key ps) n_in (n * A) rank b n s A x)
      (local_heads (lp_value ps) n_in (n * A) rank b n s A x)
    = (core\<lparr>causal_mask := Some (tril_ones s s)\<rparr>,
       Inr (tab b (\<lambda>bi. tab s (\<lambda>i. tab (n * A) (\<lambda>c.
         dense_context ps A n_in s (attention_dropout core) keep_a x bi i (n * A * rank + c))))))"
proof -
  have pos: "0 < attention_head_size core"
    using assms(1) core(1) by simp
  have entry: "(\<Sum>j<s. dropout_elem (attention_dropout core) (keep bi (c div A) i j)
         (spec_weight core s (local_heads (lp_query ps) n_in (n * A) rank b n s A x)
            (local_heads (lp_key ps) n_in (n * A) rank b n s A x) bi (c div A) i j)
         * local_heads (lp_value ps) n_in (n * A) rank b n s A x ! bi ! (c div A) ! j ! (c mod A))
     = dense_context ps A n_in s (attention_dropout core) keep_a x bi i (n * A * rank + c)"
    if "bi < b" "i < s" "c < n * A" for bi i c
  proof -
    have dm: "(n * A * rank + c) div A = n * rank + c div A" "A * (c div A) + c mod A = c"
      "c div A < n"
      using div_shard [OF assms(1), of n rank c] div_less_heads [OF that(3)] by simp_all
    have "local_heads (lp_value ps) n_in (n * A) rank b n s A x ! bi ! (c div A) ! j ! (c mod A)
        = projected (lp_value ps) n_in x bi j (n * A * rank + c)" if "j < s" for j
      using local_heads_row [OF \<open>bi < b\<close> dm(3) that, of "lp_value ps" n_in "n * A" rank A x]
        assms(1) dm(2)
      by (simp add: add.assoc)
    then show ?thesis
      unfolding dense_context_def
      by (intro sum.cong refl)
         (simp add: local_weight [OF that(1) dm(3) that(2) core(1) refl core(2)]
           keep [OF dm(3)] dm(1))
  qed
  have tq: "is_tensor4 b n s A (local_heads (lp_query ps) n_in (n * A) rank b n s A x)"
    and tk: "is_tensor4 b n s A (local_heads (lp_key ps) n_in (n * A) rank b n s A x)"
    and tv: "is_tensor4 b n s A (local_heads (lp_value ps) n_in (n * A) rank b n s A x)"
    by simp_all
  show ?thesis
    using AttentionCore_forward_spec [OF tq tk tv assms(3) assms(5) assms(4) assms(1) pos
        assms(4) core(3), of keep]
    by (simp add: attention_spec_def entry cong: tab_cong)
qed

lemma dropout3_tab:
  "dropout3 d keep (tab b (\<lambda>bi. tab s (\<lambda>i. tab n (f bi i))))
     = tab b (\<lambda>bi. tab s (\<lambda>i. tab n (\<lambda>c. dropout_elem d (keep bi i c) (f bi i c))))"
  by (simp add: dropout3_def)

lemma SelfAttention_context_shards:
  assumes r: "rank < ws" and x: "is_tensor3 b s n_in x"
    and pos: "0 < b" "0 < s" "0 < n" "0 < A"
    and keep: "\<And>bi hh. hh < n \<Longrightarrow> keep bi hh = keep_a bi (n * rank + hh)"
  shows "SelfAttention_context
      \<lparr>sa_attention_head_size = int A,
       sa_query = \<lparr>cpl_weight = map (shard (n * A) rank)
                      (master_weight n_in (ws * (n * A)) (lp_query ps)),
                   cpl_bias = shard (n * A) rank (master_bias (ws * (n * A)) (lp_query ps))\<rparr>,
       sa_key = \<lparr>cpl_weight = map (shard (n * A) rank)
                      (master_weight n_in (ws * (n * A)) (lp_key ps)),
                 cpl_bias = shard (n * A) rank (master_bias (ws * (n * A)) (lp_key ps))\<rparr>,
       sa_value = \<lparr>cpl_weight = map (shard (n * A) rank)
                      (master_weight n_in (ws * (n * A)) (lp_value ps)),
                   cpl_bias = shard (n * A) rank (master_bias (ws * (n * A)) (lp_value ps))\<rparr>,
       sa_dense = dn, sa_dropout = dr,
       core_attention = \<lparr>attention_head_size = int A, attention_dropout = ad,
                          causal_mask = None, where_const = - 10000\<rparr>\<rparr> keep x
    = (\<lparr>sa_attention_head_size = int A,
       sa_query = \<lparr>cpl_weight = map (shard (n * A) rank)
                      (master_weight n_in (ws * (n * A)) (lp_query ps)),
                   cpl_bias = shard (n * A) rank (master_bias (ws * (n * A)) (lp_query ps))\<rparr>,
       sa_key = \<lparr>cpl_weight = map (shard (n * A) rank)
                      (master_weight n_in (ws * (n * A)) (lp_key ps)),
                 cpl_bias = shard (n * A) rank (master_bias (ws * (n * A)) (lp_key ps))\<rparr>,
       sa_value = \<lparr>cpl_weight = map (shard (n * A) rank)
                      (master_weight n_in (ws * (n * A)) (lp_value ps)),
                   cpl_bias = shard (n * A) rank (master_bias (ws * (n * A)) (lp_value ps))\<rparr>,
       sa_dense = dn, sa_dropout = dr,
       core_attention = \<lparr>attention_head_size = int A, attention_dropout = ad,
                          causal_mask = Some (tril_ones s s), where_const = - 10000\<rparr>\<rparr>,
       Inr (tab b (\<lambda>bi. tab s (\<lambda>i. tab (n * A) (\<lambda>c.
         dense_context ps A n_in s ad keep_a x bi i (n * A * rank + c))))))"
proof -
  have lc: "AttentionCore_forward
      \<lparr>attention_head_size = int A, attention_dropout = ad,
       causal_mask = None, where_const = - 10000\<rparr> keep
      (local_heads (lp_query ps) n_in (n * A) rank b n s A x)
      (local_heads (lp_key ps) n_in (n * A) rank b n s A x)
      (local_heads (lp_value ps) n_in (n * A) rank b n s A x)
    = (\<lparr>attention_head_size = int A, attention_dropout = ad,
        causal_mask = Some (tril_ones s s), where_const = - 10000\<rparr>,
       Inr (tab b (\<lambda>bi. tab s (\<lambda>i. tab (n * A) (\<lambda>c.
         dense_context ps A n_in s ad keep_a x bi i (n * A * rank + c))))))"
    using local_context [OF pos(4) r pos(1) pos(2) pos(3), where keep = keep and keep_a = keep_a
        and core = "\<lparr>attention_head_size = int A, attention_dropout = ad,
                       causal_mask = None, where_const = - 10000\<rparr>"
        and ps = ps and n_in = n_in and x = x] keep
    by simp
  show ?thesis
    by (simp add: SelfAttention_context_def
        SelfAttention_qkv_shards [OF r x pos(2) pos(4) refl] lc)
qed

lemma SelfAttention_forward_dense:
  assumes ws: "0 < ws" and hd: "0 \<le> hdim" "num_heads \<noteq> 0"
    and rates: "0 \<le> ap" "ap \<le> 1" "0 \<le> dp" "dp \<le> 1"
    and D: "nat hdim = ws * (n * A)" and a: "hdim div num_heads = int A"
    and pos: "0 < b" "0 < s" "0 < n" "0 < A"
    and x: "is_tensor3 b s (nat hdim) x"
    and ka: "\<And>r bi hh. r < ws \<Longrightarrow> hh < n \<Longrightarrow> ka r bi hh = keep_a bi (n * r + hh)"
    and ko: "\<And>r. r < ws \<Longrightarrow> ko r = keep_o"
  shows "ebind (SelfAttention_world ws ps hdim num_heads ap dp)
           (\<lambda>world. snd (SelfAttention_forward world ka ko (replicate ws x)))
    = Inr (replicate ws (tab b (\<lambda>bi. tab s (\<lambda>i. tab (nat hdim)
        (SelfAttention_dense ps A (nat hdim) s \<lparr>drop_p = ap, training = True\<rparr>
           \<lparr>drop_p = dp, training = True\<rparr> keep_a keep_o x bi i)))))"
proof -
  define ad where "ad = \<lparr>drop_p = ap, training = True\<rparr>"
  define od where "od = \<lparr>drop_p = dp, training = True\<rparr>"
  define inst where "inst = (\<lambda>m rank.
     \<lparr>sa_attention_head_size = int A,
       sa_query = \<lparr>cpl_weight = map (shard (n * A) rank)
                      (master_weight (nat hdim) (ws * (n * A)) (lp_query ps)),
                   cpl_bias = shard (n * A) rank (master_bias (ws * (n * A)) (lp_query ps))\<rparr>,
       sa_key = \<lparr>cpl_weight = map (shard (n * A) rank)
                      (master_weight (nat hdim) (ws * (n * A)) (lp_key ps)),
                 cpl_bias = shard (n * A) rank (master_bias (ws * (n * A)) (lp_key ps))\<rparr>,
       sa_value = \<lparr>cpl_weight = map (shard (n * A) rank)
                      (master_weight (nat hdim) (ws * (n * A)) (lp_value ps)),
                   cpl_bias = shard (n * A) rank (master_bias (ws * (n * A)) (lp_value ps))\<rparr>,
       sa_dense = \<lparr>rpl_weight = shard (n * A) rank
                                     (master_weight (ws * (n * A)) (nat hdim) (lp_dense ps)),
                      rpl_bias = master_bias (nat hdim) (lp_dense ps)\<rparr>,
       sa_dropout = od,
       core_attention = \<lparr>attention_head_size = int A, attention_dropout = ad,
                          causal_mask = m, where_const = - 10000\<rparr>\<rparr>)"
  define Y where "Y = (\<lambda>r bi i c.
    dense_context ps A (nat hdim) s ad keep_a x bi i (n * A * r + c))"
  have world: "SelfAttention_world ws ps hdim num_heads ap dp = Inr (tab ws (inst None))"
    unfolding SelfAttention_world_def inst_def ad_def od_def
    by (rule mapM_upt)
       (simp add: SelfAttention_init_shards [OF ws hd rates D] a)
  have ctx: "SelfAttention_context (inst None r) (ka r) x
      = (inst (Some (tril_ones s s)) r, Inr (tab b (\<lambda>bi. tab s (\<lambda>i. tab (n * A) (Y r bi i)))))"
    if "r < ws" for r
    unfolding inst_def Y_def
    by (rule SelfAttention_context_shards
        [where keep = "ka r" and keep_a = keep_a, OF that x pos ka [OF that]])
  have rs: "imap (\<lambda>r (self, x). SelfAttention_context self (ka r) x)
        (zip (tab ws (inst None)) (replicate ws x))
      = tab ws (\<lambda>r. (inst (Some (tril_ones s s)) r,
                      Inr (tab b (\<lambda>bi. tab s (\<lambda>i. tab (n * A) (Y r bi i))))))"
    by (simp add: replicate_tab ctx cong: tab_cong)
  have ctxs: "mapM snd (tab ws (\<lambda>r. (inst (Some (tril_ones s s)) r,
                      Inr (tab b (\<lambda>bi. tab s (\<lambda>i. tab (n * A) (Y r bi i)))))))
      = Inr (tab ws (\<lambda>r. tab b (\<lambda>bi. tab s (\<lambda>i. tab (n * A) (Y r bi i)))))"
    by (rule mapM_tab) simp
  have dense: "tab ws (\<lambda>r. sa_dense (inst (Some (tril_ones s s)) r))
      = tab ws (\<lambda>r. \<lparr>rpl_weight = shard (n * A) r
                                     (master_weight (ws * (n * A)) (nat hdim) (lp_dense ps)),
                      rpl_bias = master_bias (nat hdim) (lp_dense ps)\<rparr>)"
    by (simp add: inst_def)
  have od: "sa_dropout (inst m r) = od" for m r
    by (simp add: inst_def)
  have total: "(\<Sum>r<ws. \<Sum>t<n * A. Y r bi i t * lp_weight (lp_dense ps) (n * A * r + t) c)
      = (\<Sum>t<nat hdim. dense_context ps A (nat hdim) s ad keep_a x bi i t
                          * lp_weight (lp_dense ps) t c)" for bi i c
    unfolding Y_def D
    by (rule sum_shards
        [of "\<lambda>t. dense_context ps A (ws * (n * A)) s ad keep_a x bi i t
                  * lp_weight (lp_dense ps) t c" "n * A" ws])
  show ?thesis
    unfolding ad_def [symmetric] od_def [symmetric]
    by (simp add: world SelfAttention_forward_def ctx ctxs dense
        RowParallelLinear_forward_tab [OF ws] od dropout3_tab ko total
        SelfAttention_dense_def replicate_tab Let_def cong: tab_cong)
qed

lemma attention_then_feedforward_dense:
  assumes ws: "0 < ws" and hd: "0 \<le> hdim" "num_heads \<noteq> 0"
    and rates: "0 \<le> ap" "ap \<le> 1" "0 \<le> dp" "dp \<le> 1"
    and D: "nat hdim = ws * (n * A)" and a: "hdim div num_heads = int A"
    and pos: "0 < b" "0 < s" "0 < n" "0 < A"
    and x: "is_tensor3 b s (nat hdim) x"
    and ka: "\<And>r bi hh. r < ws \<Longrightarrow> hh < n \<Longrightarrow> ka r bi hh = keep_a bi (n * r + hh)"
    and ko: "\<And>r. r < ws \<Longrightarrow> ko r = keep_o"
    and ratio: "0 \<le> default_arg 4 ratio"
  shows "attention_then_feedforward ws gelu aps fps hdim num_heads ratio ap dp ka ko x
    = Inr (replicate ws (tab b (\<lambda>bi. tab s (\<lambda>i. tab (nat hdim)
        (FeedForward_dense gelu fps (nat hdim) (nat (hdim * default_arg 4 ratio))
           (tab b (\<lambda>bi. tab s (\<lambda>i. tab (nat hdim)
              (SelfAttention_dense aps A (nat hdim) s \<lparr>drop_p = ap, training = True\<rparr>
                 \<lparr>drop_p = dp, training = True\<rparr> keep_a keep_o x bi i)))) bi i)))))"
proof -
  let ?Y = "tab b (\<lambda>bi. tab s (\<lambda>i. tab (nat hdim)
              (SelfAttention_dense aps A (nat hdim) s \<lparr>drop_p = ap, training = True\<rparr>
                 \<lparr>drop_p = dp, training = True\<rparr> keep_a keep_o x bi i)))"
  obtain world where world: "SelfAttention_world ws aps hdim num_heads ap dp = Inr world"
    and out: "snd (SelfAttention_forward world ka ko (replicate ws x)) = Inr (replicate ws ?Y)"
    using SelfAttention_forward_dense [where ka = ka and keep_a = keep_a and ko = ko
        and keep_o = keep_o and ps = aps, OF ws hd rates D a pos x ka ko]
    by (auto simp: ebind_eq_Inr)
  have dvd: "int ws dvd hdim * default_arg 4 ratio"
    using nat_eq_imp_dvd [OF hd(1) D] by simp
  have y: "is_tensor3 b s (nat hdim) ?Y"
    by simp
  show ?thesis
    using FeedForward_forward_dense [OF ws hd(1) ratio dvd y, of gelu fps]
    by (cases "FeedForward_world ws gelu fps hdim ratio")
       (simp_all add: attention_then_feedforward_def world out)
qed

lemma head_layout:
  assumes "0 < ws" "0 < hdim" "0 < num_heads" "num_heads dvd hdim" "int ws dvd num_heads"
  shows "hdim div num_heads = int (nat (hdim div num_heads))"
    and "0 < nat (hdim div num_heads)"
    and "0 < nat num_heads div ws"
    and "nat hdim = ws * (nat num_heads div ws * nat (hdim div num_heads))"
    and "nat hdim = 1 * (nat num_heads * nat (hdim div num_heads))"
proof -
  obtain a where a: "hdim = num_heads * a"
    using assms(4) by (auto simp: dvd_def)
  have apos: "0 < a"
    using assms(2,3) a by (simp add: zero_less_mult_iff)
  have q: "hdim div num_heads = a"
    using assms(3) a by simp
  show "hdim div num_heads = int (nat (hdim div num_heads))"
    using apos q by simp
  show "0 < nat (hdim div num_heads)"
    using apos q by simp
  have wd: "ws dvd nat num_heads"
    using assms(3,5) by (simp add: int_dvd_int_iff [symmetric])
  then obtain n where n: "nat num_heads = ws * n"
    by (auto simp: dvd_def)
  have npos: "0 < n"
    using assms(3) n by (cases n) auto
  have nd: "nat num_heads div ws = n"
    using assms(1) n by simp
  show "0 < nat num_heads div ws"
    using nd npos by simp
  have "nat hdim = nat num_heads * nat a"
    using a assms(3) apos by (simp add: nat_mult_distrib)
  then show "nat hdim = ws * (nat num_heads div ws * nat (hdim div num_heads))"
    by (simp add: nd q n)
  show "nat hdim = 1 * (nat num_heads * nat (hdim div num_heads))"
    using \<open>nat hdim = nat num_heads * nat a\<close> by (simp add: q)
qed

text \<open>
  Claim C1, as the code has it. For every world size \<open>ws > 0\<close> (so for 1, 2 and 4),
  \<open>dim\<close> divisible by \<open>num_heads\<close>, and \<open>num_heads\<close> divisible by \<open>ws\<close> (every rank holds
  whole heads; then \<open>ws\<close> divides \<open>dim\<close> too), the composition of \<open>SelfAttention\<close> and
  \<open>FeedForward\<close> computed by \<open>ws\<close> ranks with sharded weights gives, on every rank, the
  result of the dense run with world size 1; so does each of the two sublayers alone.
  Values are exact reals. The random choices of the dropouts are the same in both
  runs: rank \<open>r\<close> uses for its local head \<open>hh\<close> the choices of the dense run for head
  \<open>num_heads div ws * r + hh\<close>.
\<close>

theorem shard_invariance:
  assumes "0 < ws" and "0 < hdim" and "0 < num_heads"
    and "num_heads dvd hdim" and "int ws dvd num_heads"
    and "0 \<le> ap" "ap \<le> 1" "0 \<le> dp" "dp \<le> 1" and "0 \<le> default_arg 4 ratio"
    and "is_tensor3 b s (nat hdim) x" and "0 < b" "0 < s"
  shows "attention_then_feedforward ws gelu aps fps hdim num_heads ratio ap dp
           (\<lambda>r bi hh. keep_a bi (nat num_heads div ws * r + hh)) (\<lambda>r. keep_o) x
       = ebind (attention_then_feedforward 1 gelu aps fps hdim num_heads ratio ap dp
                  (\<lambda>r. keep_a) (\<lambda>r. keep_o) x)
           (\<lambda>ys. Inr (replicate ws (hd ys)))
     \<and> ebind (SelfAttention_world ws aps hdim num_heads ap dp)
           (\<lambda>world. snd (SelfAttention_forward world
              (\<lambda>r bi hh. keep_a bi (nat num_heads div ws * r + hh)) (\<lambda>r. keep_o)
              (replicate ws x)))
       = ebind (ebind (SelfAttention_world 1 aps hdim num_heads ap dp)
                  (\<lambda>dense. snd (SelfAttention_forward dense (\<lambda>r. keep_a) (\<lambda>r. keep_o) [x])))
           (\<lambda>ys. Inr (replicate ws (hd ys)))
     \<and> ebind (FeedForward_world ws gelu fps hdim ratio)
           (\<lambda>world. FeedForward_forward world (replicate ws x))
       = ebind (ebind (FeedForward_world 1 gelu fps hdim ratio)
                  (\<lambda>dense. FeedForward_forward dense [x]))
           (\<lambda>ys. Inr (replicate ws (hd ys)))"
proof -
  note hl = head_layout [OF assms(1-5)]
  have hd: "0 \<le> hdim" "num_heads \<noteq> 0"
    using assms(2,3) by simp_all
  have one: "0 < (1::nat)" "0 < nat num_heads"
    using assms(3) by simp_all
  have k1: "(\<lambda>r. keep_a) r bi hh = keep_a bi (nat num_heads * r + hh)" if "r < 1" for r bi hh
    using that by simp
  have dvd: "int ws dvd hdim * default_arg 4 ratio" "int 1 dvd hdim * default_arg 4 ratio"
    using nat_eq_imp_dvd [OF hd(1) hl(4)] by simp_all
  have c: "attention_then_feedforward ws gelu aps fps hdim num_heads ratio ap dp
           (\<lambda>r bi hh. keep_a bi (nat num_heads div ws * r + hh)) (\<lambda>r. keep_o) x
       = ebind (attention_then_feedforward 1 gelu aps fps hdim num_heads ratio ap dp
                  (\<lambda>r. keep_a) (\<lambda>r. keep_o) x)
           (\<lambda>ys. Inr (replicate ws (hd ys)))"
    using attention_then_feedforward_dense [where ka = "\<lambda>r bi hh. keep_a bi (nat num_heads div ws * r + hh)"
        and keep_a = keep_a and ko = "\<lambda>r. keep_o" and keep_o = keep_o,
        OF assms(1) hd assms(6-9) hl(4) hl(1) assms(12,13) hl(3) hl(2) assms(11) _ _ assms(10),
        of gelu aps fps]
      attention_then_feedforward_dense [where ka = "\<lambda>r. keep_a"
        and keep_a = keep_a and ko = "\<lambda>r. keep_o" and keep_o = keep_o,
        OF one(1) hd assms(6-9) hl(5) hl(1) assms(12,13) one(2) hl(2) assms(11) k1 _ assms(10),
        of gelu aps fps]
    by simp
  have a: "ebind (SelfAttention_world ws aps hdim num_heads ap dp)
           (\<lambda>world. snd (SelfAttention_forward world
              (\<lambda>r bi hh. keep_a bi (nat num_heads div ws * r + hh)) (\<lambda>r. keep_o)
              (replicate ws x)))
       = ebind (ebind (SelfAttention_world 1 aps hdim num_heads ap dp)
                  (\<lambda>dense. snd (SelfAttention_forward dense (\<lambda>r. keep_a) (\<lambda>r. keep_o) [x])))
           (\<lambda>ys. Inr (replicate ws (hd ys)))"
    using SelfAttention_forward_dense [where ka = "\<lambda>r bi hh. keep_a bi (nat num_heads div ws * r + hh)"
        and keep_a = keep_a and ko = "\<lambda>r. keep_o" and keep_o = keep_o,
        OF assms(1) hd assms(6-9) hl(4) hl(1) assms(12,13) hl(3) hl(2) assms(11), of aps]
      SelfAttention_forward_dense [where ka = "\<lambda>r. keep_a"
        and keep_a = keep_a and ko = "\<lambda>r. keep_o" and keep_o = keep_o,
        OF one(1) hd assms(6-9) hl(5) hl(1) assms(12,13) one(2) hl(2) assms(11) k1, of aps]
    by simp
  have f: "ebind (FeedForward_world ws gelu fps hdim ratio)
           (\<lambda>world. FeedForward_forward world (replicate ws x))
       = ebind (ebind (FeedForward_world 1 gelu fps hdim ratio)
                  (\<lambda>dense. FeedForward_forward dense [x]))
           (\<lambda>ys. Inr (replicate ws (hd ys)))"
    using FeedForward_forward_dense [OF assms(1) hd(1) assms(10) dvd(1) assms(11), of gelu fps]
      FeedForward_forward_dense [OF one(1) hd(1) assms(10) dvd(2) assms(11), of gelu fps]
    by simp
  show ?thesis
    using c a f by simp
qed

lemma ex_x_shape: "is_tensor3 1 2 (nat 2) ex_x"
  by (simp add: ex_x_def is_tensor3_def is_mat_def)

lemmas layer_eval =
  SelfAttention_world_def SelfAttention_init_def ColumnParallelLinear_init_def
  RowParallelLinear_init_def Dropout_init_def AttentionCore_init_def master_weight_def
  master_bias_def shard_def FeedForward_world_def FeedForward_init_def default_arg_def
  ex_attn_params_def ex_ffn_params_def ex_lp_def SelfAttention_forward_def
  SelfAttention_context_def SelfAttention_qkv_def ColumnParallelLinear_forward_def
  linear_nobias_def vecmat_def add_bias_def view_heads_def imap_def
  upt_conv_Cons Let_def

lemma sharded_fails:
  "attention_then_feedforward 2 relu ex_attn_params ex_ffn_params 2 1 None 0 0
      ex_keep_a ex_keep_o ex_x = Inl RuntimeError"
  by (simp add: attention_then_feedforward_def ex_x_def layer_eval del: upt_Suc)

lemma ex_x4_shape: "is_tensor3 1 2 (nat 4) ex_x4"
  by (simp add: ex_x4_def is_tensor3_def is_mat_def)

theorem shard_invariance_witness:
  "(0::nat) < 2 \<and> (0::int) < 4 \<and> (0::int) < 2 \<and> (2::int) dvd 4 \<and> int 2 dvd 2
   \<and> (0::int) \<le> default_arg 4 None \<and> is_tensor3 1 2 (nat 4) ex_x4
   \<and> attention_then_feedforward 2 relu ex_attn_params ex_ffn_params 4 2 None 0 0
           (\<lambda>r bi hh. ex_keep_a 0 bi (nat 2 div 2 * r + hh)) (\<lambda>r. ex_keep_o 0) ex_x4
       = ebind (attention_then_feedforward 1 relu ex_attn_params ex_ffn_params 4 2 None 0 0
                  (\<lambda>r. ex_keep_a 0) (\<lambda>r. ex_keep_o 0) ex_x4)
           (\<lambda>ys. Inr (replicate 2 (hd ys)))"
proof -
  have h: "(0::nat) < 2" "(0::int) < 4" "(0::int) < 2" "(2::int) dvd 4" "int 2 dvd 2"
    "(0::real) \<le> 0" "(0::real) \<le> 1" "(0::real) \<le> 0" "(0::real) \<le> 1"
    "(0::int) \<le> default_arg 4 None"
    by (simp_all add: default_arg_def)
  have p: "(0::nat) < 1" "(0::nat) < 2"
    by simp_all
  show ?thesis
    using h(1-5) h(10) ex_x4_shape
      shard_invariance [OF h ex_x4_shape p, of relu ex_attn_params ex_ffn_params
        "ex_keep_a 0" "ex_keep_o 0"]
    by simp
qed

text \<open>
  Claim C1, as stated, fails: \<open>dim = 2\<close> is divisible by \<open>num_heads = 1\<close> and by
  \<open>world_size = 2\<close>, but each rank holds a local width of 1, which is no whole head of
  size 2: the \<^verbatim>\<open>view\<close> of the local projections raises, while the dense run returns a
  tensor of shape \<open>[1, 2, 2]\<close>.
\<close>

theorem split_head_counterexample:
  "(1::int) dvd 2 \<and> int 2 dvd 2 \<and> is_tensor3 1 2 (nat 2) ex_x
   \<and> attention_then_feedforward 2 relu ex_attn_params ex_ffn_params 2 1 None 0 0
        ex_keep_a ex_keep_o ex_x = Inl RuntimeError
   \<and> map_sum id (map shape3)
        (attention_then_feedforward 1 relu ex_attn_params ex_ffn_params 2 1 None 0 0
           ex_keep_a ex_keep_o ex_x) = Inr [[[2, 2]]]"
proof -
  have h: "(0::nat) < 1" "(0::int) \<le> 2" "(1::int) \<noteq> 0"
    "(0::real) \<le> 0" "(0::real) \<le> 1" "(0::real) \<le> 0" "(0::real) \<le> 1"
    "nat 2 = 1 * (1 * 2)" "(2::int) div 1 = int 2" "(0::nat) < 1" "(0::nat) < 2"
    "(0::nat) < 1" "(0::nat) < 2"
    by simp_all
  have ka: "ex_keep_a r bi hh = ex_keep_a 0 bi (1 * r + hh)" for r bi hh
    by (simp add: ex_keep_a_def fun_eq_iff)
  have ko: "ex_keep_o r = ex_keep_o 0" for r
    by (simp add: ex_keep_o_def fun_eq_iff)
  have r: "(0::int) \<le> default_arg 4 None"
    by (simp add: default_arg_def)
  have sh: "shape3 (tab b (\<lambda>bi. tab s (\<lambda>i. tab n (f bi i)))) = replicate b (replicate s n)"
    for b s n and f :: "nat \<Rightarrow> nat \<Rightarrow> nat \<Rightarrow> real"
    by (simp add: tab_shape3 replicate_tab)
  have "map_sum id (map shape3)
        (attention_then_feedforward 1 relu ex_attn_params ex_ffn_params 2 1 None 0 0
           ex_keep_a ex_keep_o ex_x) = Inr [[[2, 2]]]"
    unfolding attention_then_feedforward_dense [where ka = ex_keep_a and keep_a = "ex_keep_a 0"
        and ko = ex_keep_o and keep_o = "ex_keep_o 0",
        OF h ex_x_shape ka ko r, of relu ex_attn_params ex_ffn_params]
    by (simp add: sh numeral_2_eq_2 del: map_tab)
  then show ?thesis
    using sharded_fails ex_x_shape by simp
qed

text \<open>
  Claim C7. A \<open>SelfAttention\<close> constructed on rank \<open>rank\<close> of \<open>ws\<close> has the head size
  \<open>dim div num_heads\<close>, whatever the rank and the world size are. With local width
  \<open>w = dim / ws\<close>, head size \<open>A\<close> and \<open>w = n * A\<close>, the local projection has the entries
  \<open>[bi][i][c]\<close> of columns \<open>w * rank + c\<close> of the unsharded projection, the local head
  count is \<open>n = w div A\<close>, and each of query, key and value handed to the attention
  kernel has shape \<open>[b, n, s, A]\<close> with entry \<open>[bi][hh][i][t]\<close> equal to entry
  \<open>[bi][i][A * hh + t]\<close> of the local projection: split by the head size, then permuted
  from \<open>[b, s, n, A]\<close> to \<open>[b, n, s, A]\<close>.
\<close>

theorem SelfAttention_head_split:
  assumes "0 < ws" and "rank < ws" and "0 \<le> hdim" and "num_heads \<noteq> 0"
    and "0 \<le> ap" "ap \<le> 1" "0 \<le> dp" "dp \<le> 1"
    and "nat hdim = ws * w" and "hdim div num_heads = int A" and "0 < A" and "w = n * A"
    and "is_tensor3 b s (nat hdim) x" and "0 < s"
  shows "map_sum id sa_attention_head_size (SelfAttention_init ws rank ps hdim num_heads ap dp)
           = Inr (hdim div num_heads)
     \<and> int n = int w div (hdim div num_heads)
     \<and> ebind (SelfAttention_init ws rank ps hdim num_heads ap dp)
           (\<lambda>self. ColumnParallelLinear_forward (sa_query self) x)
         = Inr (tab b (\<lambda>bi. tab s (\<lambda>i. tab w (\<lambda>c.
             projected (lp_query ps) (nat hdim) x bi i (w * rank + c)))))
     \<and> ebind (SelfAttention_init ws rank ps hdim num_heads ap dp)
           (\<lambda>self. SelfAttention_qkv self x)
         = Inr (tab b (\<lambda>bi. tab n (\<lambda>hh. tab s (\<lambda>i. tab A (\<lambda>t.
                  projected (lp_query ps) (nat hdim) x bi i (w * rank + (A * hh + t)))))),
                tab b (\<lambda>bi. tab n (\<lambda>hh. tab s (\<lambda>i. tab A (\<lambda>t.
                  projected (lp_key ps) (nat hdim) x bi i (w * rank + (A * hh + t)))))),
                tab b (\<lambda>bi. tab n (\<lambda>hh. tab s (\<lambda>i. tab A (\<lambda>t.
                  projected (lp_value ps) (nat hdim) x bi i (w * rank + (A * hh + t)))))))"
proof -
  note init = SelfAttention_init_shards [OF assms(1) assms(3-9), of rank ps]
  have n: "int n = int w div (hdim div num_heads)"
    using assms(11) by (simp add: assms(10) assms(12) flip: of_nat_mult zdiv_int)
  have q: "ebind (SelfAttention_init ws rank ps hdim num_heads ap dp)
           (\<lambda>self. SelfAttention_qkv self x)
         = Inr (local_heads (lp_query ps) (nat hdim) w rank b n s A x,
                local_heads (lp_key ps) (nat hdim) w rank b n s A x,
                local_heads (lp_value ps) (nat hdim) w rank b n s A x)"
    by (simp add: init assms(10)
        SelfAttention_qkv_shards [OF assms(2) assms(13) assms(14) assms(11) assms(12)])
  show ?thesis
    using n q
    by (simp add: init Column_forward_projected [OF assms(2) assms(13)] local_heads_def)
qed

theorem SelfAttention_head_split_witness:
  "(0::nat) < 2 \<and> (1::nat) < 2 \<and> (0::int) \<le> 4 \<and> (2::int) \<noteq> 0
   \<and> nat 4 = 2 * 2 \<and> (4::int) div 2 = int 2 \<and> (2::nat) = 1 * 2
   \<and> is_tensor3 1 2 (nat 4) ex_x4
   \<and> map_sum id sa_attention_head_size (SelfAttention_init 2 1 ex_attn_params 4 2 0 0)
        = Inr (4 div 2)
   \<and> int 1 = int 2 div (4 div 2)
   \<and> ebind (SelfAttention_init 2 1 ex_attn_params 4 2 0 0)
           (\<lambda>self. ColumnParallelLinear_forward (sa_query self) ex_x4)
         = Inr (tab 1 (\<lambda>bi. tab 2 (\<lambda>i. tab 2 (\<lambda>c.
             projected (lp_query ex_attn_params) (nat 4) ex_x4 bi i (2 * 1 + c)))))"
proof -
  have h: "(0::nat) < 2" "(1::nat) < 2" "(0::int) \<le> 4" "(2::int) \<noteq> 0"
    "(0::real) \<le> 0" "(0::real) \<le> 1" "(0::real) \<le> 0" "(0::real) \<le> 1"
    "nat 4 = 2 * 2" "(4::int) div 2 = int 2" "(0::nat) < 2" "(2::nat) = 1 * 2"
    by simp_all
  have s: "(0::nat) < 2"
    by simp
  show ?thesis
    using h(1-4) h(9,10,12) ex_x4_shape
      SelfAttention_head_split [OF h ex_x4_shape s, of ex_attn_params]
    by simp
qed

end
